theory Spec2Isabelle
  imports Complex_Main "HOL-Library.Char_ord" "HOL-Library.List_Lexorder"
begin

section \<open>Python values, exceptions and indexing\<close>

text \<open>
  The two programs of the repository are Streamlit scripts: \<^verbatim>\<open>app.py\<close> (the small
  two-stage page) and \<^verbatim>\<open>app_comprehensive.py\<close> (quality gate, crop assist, guardrail,
  corrections, history). Python floats are modelled by \<^typ>\<open>real\<close>; every comparison the
  scripts make on them is an order comparison, and model outputs are taken to be plain
  numbers (no NaN). Strings are byte strings.

  An exception of the source is a value of \<open>error\<close>; an expression that may raise has the
  type \<open>error + 'a\<close>, with \<open>Inl\<close> for the exception.
\<close>

datatype error =
    IndexError
  | ValueError
  | NameError
  | UnboundLocalError
  | NotADirectoryError
  | OSError
  | JSONDecodeError
  | AttributeError
  | ModelFailure
  | StopScript

definition bind_err :: "error + 'a \<Rightarrow> ('a \<Rightarrow> error + 'b) \<Rightarrow> error + 'b" where
  "bind_err m f = (case m of Inl e \<Rightarrow> Inl e | Inr x \<Rightarrow> f x)"

text \<open>\<^verbatim>\<open>xs[i]\<close> for a non-negative index: out of range raises \<^verbatim>\<open>IndexError\<close>.\<close>

definition py_index :: "'a list \<Rightarrow> nat \<Rightarrow> error + 'a" where
  "py_index xs i = (if i < length xs then Inr (xs ! i) else Inl IndexError)"

text \<open>
  \<^verbatim>\<open>int(np.argmax(probs))\<close>: the index of the first occurrence of the maximum; numpy raises
  \<^verbatim>\<open>ValueError\<close> on an empty array. \<open>argmax_from\<close> is the scan: the rest of the array, the
  index of its head, the best value so far and where it stands.
\<close>

fun argmax_from :: "real list \<Rightarrow> nat \<Rightarrow> real \<Rightarrow> nat \<Rightarrow> nat" where
  "argmax_from [] i best pos = pos"
| "argmax_from (x # xs) i best pos =
     (if best < x then argmax_from xs (Suc i) x i else argmax_from xs (Suc i) best pos)"

definition argmax :: "real list \<Rightarrow> error + nat" where
  "argmax probs = (case probs of [] \<Rightarrow> Inl ValueError | p # ps \<Rightarrow> Inr (argmax_from ps 1 p 0))"

text \<open>\<^verbatim>\<open>str.lower()\<close> on the ASCII letters, and \<^verbatim>\<open>str(n)\<close> for a non-negative integer.\<close>

definition lower_char :: "char \<Rightarrow> char" where
  "lower_char c =
     (let n = (of_char c :: nat) in if 65 \<le> n \<and> n \<le> 90 then char_of (n + 32) else c)"

definition lower :: "string \<Rightarrow> string" where
  "lower s = map lower_char s"

definition digit_char :: "nat \<Rightarrow> char" where
  "digit_char d = char_of (48 + d)"

fun str_nat :: "nat \<Rightarrow> string" where
  "str_nat n = (if n < 10 then [digit_char n] else str_nat (n div 10) @ [digit_char (n mod 10)])"

section \<open>Top-1 outcome of a classification head\<close>

text \<open>
  Both scripts read a head's outcome the same way:
  \<^verbatim>\<open>
  sp_idx   = int(np.argmax(sp_probs))
  sp_label = species_labels[sp_idx] if sp_idx < len(species_labels) else "unknown"
  sp_conf  = float(sp_probs[sp_idx])

  br_idx   = int(np.argmax(br_probs))
  br_label = labels[br_idx] if br_idx < len(labels) else f"{head}_class_{br_idx}"
  br_conf  = float(br_probs[br_idx])
  \<close>
  \<open>pick\<close> is the pair of the last two lines, for an index already computed.
\<close>

datatype head = Sheep | Bovine

definition head_name :: "head \<Rightarrow> string" where
  "head_name h = (case h of Sheep \<Rightarrow> ''sheep'' | Bovine \<Rightarrow> ''bovine'')"

definition class_placeholder :: "head \<Rightarrow> nat \<Rightarrow> string" where
  "class_placeholder h idx = head_name h @ ''_class_'' @ str_nat idx"

definition pick :: "string list \<Rightarrow> string \<Rightarrow> real list \<Rightarrow> nat \<Rightarrow> error + (string \<times> real)" where
  "pick labels placeholder probs idx =
     bind_err (if idx < length labels then py_index labels idx else Inr placeholder) (\<lambda>label.
     bind_err (py_index probs idx) (\<lambda>conf.
     Inr (label, conf)))"

definition species_top1 :: "string list \<Rightarrow> real list \<Rightarrow> error + (string \<times> real)" where
  "species_top1 species_labels sp_probs =
     bind_err (argmax sp_probs) (\<lambda>sp_idx. pick species_labels ''unknown'' sp_probs sp_idx)"

definition breed_top1 :: "head \<Rightarrow> string list \<Rightarrow> real list \<Rightarrow> error + (string \<times> real)" where
  "breed_top1 h labels br_probs =
     bind_err (argmax br_probs) (\<lambda>br_idx.
       pick labels (class_placeholder h br_idx) br_probs br_idx)"

section \<open>Quality gate (\<^verbatim>\<open>assess_image_quality\<close>)\<close>

text \<open>
  The gate reads five measurements of the image: its size, the variance of the Laplacian of
  the grey image (\<^verbatim>\<open>cv2.Laplacian(img_array, cv2.CV_64F).var()\<close>), and the mean and the
  standard deviation of the grey levels (\<^verbatim>\<open>np.mean\<close>, \<^verbatim>\<open>np.std\<close>). These library results
  are the fields of \<open>image_stats\<close>. A rule of the report keeps its \<^verbatim>\<open>'pass'\<close> and
  \<^verbatim>\<open>'score'\<close> entries; the entries that only copy an input for display are left out.
\<close>

record image_stats =
  width :: nat
  height :: nat
  laplacian_variance :: real
  gray_mean :: real
  gray_std :: real

record rule =
  pass :: bool
  score :: real

record quality_results =
  resolution :: rule
  blur :: rule
  brightness :: rule
  dynamic_range :: rule
  file_size :: "rule option"
  overall_score :: real
  overall_pass :: bool

definition resolution_rule :: "nat \<Rightarrow> nat \<Rightarrow> rule" where
  "resolution_rule w h =
     \<lparr>pass = (512 \<le> w \<and> 512 \<le> h), score = real (min w h) / 512\<rparr>"

definition blur_rule :: "real \<Rightarrow> rule" where
  "blur_rule variance = \<lparr>pass = (120 \<le> variance), score = variance / 120\<rparr>"

text \<open>
  \<^verbatim>\<open>
  brightness = np.mean(img_array) / 255.0
  'pass': 0.25 <= brightness <= 0.75,
  'score': min(brightness / 0.25, (1 - brightness) / 0.25) if brightness < 0.5 else 1.0
  \<close>
\<close>

definition brightness_rule :: "real \<Rightarrow> rule" where
  "brightness_rule b =
     \<lparr>pass = (0.25 \<le> b \<and> b \<le> 0.75),
      score = (if b < 0.5 then min (b / 0.25) ((1 - b) / 0.25) else 1)\<rparr>"

definition dynamic_range_rule :: "real \<Rightarrow> rule" where
  "dynamic_range_rule d = \<lparr>pass = (0.15 \<le> d), score = d / 0.15\<rparr>"

definition file_size_rule :: "nat \<Rightarrow> nat \<Rightarrow> rule" where
  "file_size_rule file_size_bytes max_file_size_bytes =
     \<lparr>pass = (file_size_bytes \<le> max_file_size_bytes),
      score = min 1 (real max_file_size_bytes / real (max 1 file_size_bytes))\<rparr>"

definition assess_image_quality :: "image_stats \<Rightarrow> nat option \<Rightarrow> nat option \<Rightarrow> quality_results" where
  "assess_image_quality img file_size_bytes max_file_size_bytes =
     (let res = resolution_rule (width img) (height img);
          blr = blur_rule (laplacian_variance img);
          bri = brightness_rule (gray_mean img / 255);
          dyn = dynamic_range_rule (gray_std img / 255);
          fsz = (case (file_size_bytes, max_file_size_bytes) of
                   (Some n, Some m) \<Rightarrow> Some (file_size_rule n m)
                 | _ \<Rightarrow> None)
      in \<lparr>resolution = res, blur = blr, brightness = bri, dynamic_range = dyn,
          file_size = fsz,
          overall_score = (score res + score blr + score bri + score dyn) / 4,
          overall_pass = (pass res \<and> pass blr \<and> pass bri \<and> pass dyn)\<rparr>)"

text \<open>The rules a report holds, in the order of the source, the optional one last.\<close>

definition report_rules :: "quality_results \<Rightarrow> rule list" where
  "report_rules q =
     [resolution q, blur q, brightness q, dynamic_range q] @
     (case file_size q of None \<Rightarrow> [] | Some r \<Rightarrow> [r])"

text \<open>\<^verbatim>\<open>np.mean\<close> of a list of numbers.\<close>

definition mean :: "real list \<Rightarrow> real" where
  "mean xs = sum_list xs / real (length xs)"

section \<open>Crop assistant (\<^verbatim>\<open>auto_crop_image\<close>)\<close>

text \<open>
  The RGB array of an image is the list of its rows, a row the list of its pixels:
  \<^verbatim>\<open>shape[0]\<close> is the number of rows and \<^verbatim>\<open>shape[1]\<close> the length of a row.
  \<open>slice2 a y1 y2 x1 x2\<close> is numpy's \<^verbatim>\<open>a[y1:y2, x1:x2]\<close> for bounds that are not negative:
  a slice stops at the end of the array and is empty when its bounds cross.
\<close>

definition shape0 :: "'a list list \<Rightarrow> nat" where
  "shape0 a = length a"

definition shape1 :: "'a list list \<Rightarrow> nat" where
  "shape1 a = (case a of [] \<Rightarrow> 0 | r # _ \<Rightarrow> length r)"

definition slice2 :: "'a list list \<Rightarrow> nat \<Rightarrow> nat \<Rightarrow> nat \<Rightarrow> nat \<Rightarrow> 'a list list" where
  "slice2 a y1 y2 x1 x2 = map (\<lambda>row. take (x2 - x1) (drop x1 row)) (take (y2 - y1) (drop y1 a))"

text \<open>
  \<^verbatim>\<open>Image.fromarray\<close> builds the image from the array. Whether Pillow accepts a region of
  no pixels depends on its version: \<open>accepts_empty\<close> says which one runs.
\<close>

definition fromarray :: "bool \<Rightarrow> 'a list list \<Rightarrow> error + 'a list list" where
  "fromarray accepts_empty a =
     (if (shape0 a = 0 \<or> shape1 a = 0) \<and> \<not> accepts_empty then Inl ValueError else Inr a)"

text \<open>
  \<^verbatim>\<open>
  if use_face_detection:
      height, width = img_array.shape[:2]
      center_x, center_y = width // 2, height // 2
      crop_size = min(width, height) * 0.8
      x1 = max(0, int(center_x - crop_size // 2))
      y1 = max(0, int(center_y - crop_size // 2))
      x2 = min(width, int(center_x + crop_size // 2))
      y2 = min(height, int(center_y + crop_size // 2))
      cropped = img_array[y1:y2, x1:x2]
  else:
      min_dim = min(img_array.shape[0], img_array.shape[1])
      start_x = (img_array.shape[1] - min_dim) // 2
      start_y = (img_array.shape[0] - min_dim) // 2
      cropped = img_array[start_y:start_y+min_dim, start_x:start_x+min_dim]
  return Image.fromarray(cropped)
  \<close>
  inside \<^verbatim>\<open>try\<close>, with \<^verbatim>\<open>except Exception: return image\<close>. The product by 0.8 and the floor
  division \<^verbatim>\<open>crop_size // 2\<close> are taken exactly; the difference and the sum with the centre
  are whole numbers, which \<^verbatim>\<open>int\<close> leaves as they are.
\<close>

definition center_weighted_crop :: "'a list list \<Rightarrow> 'a list list" where
  "center_weighted_crop img_array =
     (let h = int (shape0 img_array); w = int (shape1 img_array);
          center_x = w div 2; center_y = h div 2;
          crop_size = real_of_int (min w h) * 0.8;
          half = \<lfloor>crop_size / 2\<rfloor>;
          x1 = max 0 (center_x - half);
          y1 = max 0 (center_y - half);
          x2 = min w (center_x + half);
          y2 = min h (center_y + half)
      in slice2 img_array (nat y1) (nat y2) (nat x1) (nat x2))"

definition center_square_crop :: "'a list list \<Rightarrow> 'a list list" where
  "center_square_crop img_array =
     (let min_dim = min (shape0 img_array) (shape1 img_array);
          start_x = (shape1 img_array - min_dim) div 2;
          start_y = (shape0 img_array - min_dim) div 2
      in slice2 img_array start_y (start_y + min_dim) start_x (start_x + min_dim))"

definition auto_crop_image :: "bool \<Rightarrow> 'a list list \<Rightarrow> bool \<Rightarrow> 'a list list" where
  "auto_crop_image accepts_empty img use_face_detection =
     (case fromarray accepts_empty
             (if use_face_detection then center_weighted_crop img
              else center_square_crop img) of
        Inl e \<Rightarrow> img
      | Inr cropped \<Rightarrow> cropped)"

text \<open>An array is rectangular: \<open>h\<close> rows of \<open>w\<close> pixels each.\<close>

definition rectangular :: "nat \<Rightarrow> nat \<Rightarrow> 'a list list \<Rightarrow> bool" where
  "rectangular w h a = (length a = h \<and> list_all (\<lambda>row. length row = w) a)"

section \<open>Label registry\<close>

text \<open>
  A configuration value is a JSON value; \<^verbatim>\<open>cfg.get(field)\<close> is \<^verbatim>\<open>None\<close> for a missing key as for
  a JSON null. The file system is read through three operations: \<^verbatim>\<open>Path(p).exists()\<close>,
  \<^verbatim>\<open>json.loads(Path(p).read_text())\<close> and the listing
  \<^verbatim>\<open>[d.name for d in p.iterdir() if d.is_dir()]\<close>. A node is a file, given by what parsing its
  text yields, or a directory, given by its entries in listing order, each with its
  \<^verbatim>\<open>is_dir()\<close> flag. Paths are the strings the scripts build.
\<close>

datatype json =
    JNull
  | JBool bool
  | JNum real
  | JString string
  | JList "json list"
  | JObject "(string \<times> json) list"

datatype node = File "error + json" | Dir "(string \<times> bool) list"

type_synonym filesystem = "(string \<times> node) list"

type_synonym config = "(string \<times> json) list"

definition path_exists :: "filesystem \<Rightarrow> string \<Rightarrow> bool" where
  "path_exists fs p = (case map_of fs p of None \<Rightarrow> False | Some n \<Rightarrow> True)"

definition read_json :: "filesystem \<Rightarrow> string \<Rightarrow> error + json" where
  "read_json fs p = (case map_of fs p of Some (File r) \<Rightarrow> r | _ \<Rightarrow> Inl OSError)"

definition subdirs :: "filesystem \<Rightarrow> string \<Rightarrow> error + string list" where
  "subdirs fs p =
     (case map_of fs p of
        Some (Dir entries) \<Rightarrow> Inr (map fst (filter snd entries))
      | Some (File r) \<Rightarrow> Inl NotADirectoryError
      | None \<Rightarrow> Inl OSError)"

definition cfg_get :: "config \<Rightarrow> string \<Rightarrow> json" where
  "cfg_get cfg field = (case map_of cfg field of None \<Rightarrow> JNull | Some v \<Rightarrow> v)"

subsection \<open>\<^verbatim>\<open>app.py\<close>: \<^verbatim>\<open>_infer_labels_from_dir\<close>, \<^verbatim>\<open>_resolve_label_field\<close>, \<^verbatim>\<open>resolve_all_labels\<close>\<close>

definition infer_labels_from_dir :: "filesystem \<Rightarrow> string \<Rightarrow> error + json list" where
  "infer_labels_from_dir fs dir_path =
     (let train_dir = dir_path @ ''/train'' in
      if path_exists fs train_dir
      then bind_err (subdirs fs train_dir) (\<lambda>names. Inr (map JString (sort names)))
      else Inr [])"

definition resolve_label_field :: "filesystem \<Rightarrow> json \<Rightarrow> json list \<Rightarrow> json list" where
  "resolve_label_field fs val fallback_list =
     (case val of
        JList l \<Rightarrow> if l \<noteq> [] then l else fallback_list
      | JString p \<Rightarrow>
          if path_exists fs p
          then (case read_json fs p of
                  Inr (JList d) \<Rightarrow> if d \<noteq> [] then d else fallback_list
                | _ \<Rightarrow> fallback_list)
          else fallback_list
      | _ \<Rightarrow> fallback_list)"

definition default_species :: "json list" where
  "default_species = [JString ''bovine'', JString ''sheep'']"

text \<open>
  \<^verbatim>\<open>
  species = cfg.get("species_labels", ["bovine", "sheep"])
  if isinstance(species, str) and Path(species).exists():
      try: species = json.loads(Path(species).read_text())
      except Exception: species = ["bovine", "sheep"]
  if not isinstance(species, list) or not species:
      species = ["bovine", "sheep"]
  \<close>
\<close>

definition resolve_species :: "filesystem \<Rightarrow> config \<Rightarrow> json list" where
  "resolve_species fs cfg =
     (let species = (case map_of cfg ''species_labels'' of
                       None \<Rightarrow> JList default_species
                     | Some v \<Rightarrow> v);
          species = (case species of
                       JString p \<Rightarrow>
                         if path_exists fs p
                         then (case read_json fs p of
                                 Inr d \<Rightarrow> d
                               | Inl e \<Rightarrow> JList default_species)
                         else species
                     | _ \<Rightarrow> species)
      in case species of
           JList l \<Rightarrow> if l \<noteq> [] then l else default_species
         | _ \<Rightarrow> default_species)"

definition resolve_all_labels :: "filesystem \<Rightarrow> config \<Rightarrow> error + (json list \<times> json list \<times> json list)" where
  "resolve_all_labels fs cfg =
     (let species = resolve_species fs cfg in
      bind_err (infer_labels_from_dir fs ''hierarchical_data/sheep_breeds'') (\<lambda>sheep_fallback.
      bind_err (infer_labels_from_dir fs ''hierarchical_data/bovine_breeds'') (\<lambda>bovine_fallback.
      Inr (species,
           resolve_label_field fs (cfg_get cfg ''sheep_labels'') sheep_fallback,
           resolve_label_field fs (cfg_get cfg ''bovine_labels'') bovine_fallback))))"

subsection \<open>\<^verbatim>\<open>app_comprehensive.py\<close>: \<^verbatim>\<open>ensure_labels\<close>\<close>

text \<open>
  \<^verbatim>\<open>
  val = cfg.get(field)
  if isinstance(val, list) and val: return val
  if isinstance(val, str) and Path(val).exists():
      return json.loads(Path(val).read_text())
  train_dir = ROOT / "hierarchical_data" / fallback_dir / "train"
  if train_dir.exists():
      return sorted([d.name for d in train_dir.iterdir() if d.is_dir()])
  if fallback_json and Path(fallback_json).exists():
      return json.loads(Path(fallback_json).read_text())
  return []
  \<close>
  No statement of \<^verbatim>\<open>app_comprehensive.py\<close> calls this function.
\<close>

definition ensure_labels :: "filesystem \<Rightarrow> config \<Rightarrow> string \<Rightarrow> string option \<Rightarrow> string \<Rightarrow> error + json" where
  "ensure_labels fs cfg field fallback_json fallback_dir =
     (let val = cfg_get cfg field;
          train_dir = ''hierarchical_data/'' @ fallback_dir @ ''/train'';
          rest =
            (if path_exists fs train_dir
             then bind_err (subdirs fs train_dir) (\<lambda>names. Inr (JList (map JString (sort names))))
             else (case fallback_json of
                     None \<Rightarrow> Inr (JList [])
                   | Some p \<Rightarrow>
                       if p \<noteq> [] \<and> path_exists fs p then read_json fs p else Inr (JList [])))
      in case val of
           JList l \<Rightarrow> if l \<noteq> [] then Inr val else rest
         | JString p \<Rightarrow> if path_exists fs p then read_json fs p else rest
         | _ \<Rightarrow> rest)"

subsection \<open>The resolution order as the specification words it\<close>

text \<open>
  First success wins: (1) an explicit in-config ordered list; (2) a path to an external list
  file, used if it parses to a non-empty list; (3) alphabetical enumeration of the
  subdirectory names under the training-data directory; (4) the empty list.
\<close>

definition spec_explicit_list :: "json \<Rightarrow> json list option" where
  "spec_explicit_list val = (case val of JList l \<Rightarrow> if l \<noteq> [] then Some l else None | _ \<Rightarrow> None)"

definition spec_list_file :: "filesystem \<Rightarrow> json \<Rightarrow> json list option" where
  "spec_list_file fs val =
     (case val of
        JString p \<Rightarrow>
          (case map_of fs p of
             Some (File (Inr (JList d))) \<Rightarrow> if d \<noteq> [] then Some d else None
           | _ \<Rightarrow> None)
      | _ \<Rightarrow> None)"

definition spec_directory :: "filesystem \<Rightarrow> string \<Rightarrow> json list option" where
  "spec_directory fs train_dir =
     (case map_of fs train_dir of
        Some (Dir entries) \<Rightarrow> Some (map JString (sort (map fst (filter snd entries))))
      | _ \<Rightarrow> None)"

definition spec_resolve :: "filesystem \<Rightarrow> json \<Rightarrow> string \<Rightarrow> json list" where
  "spec_resolve fs val train_dir =
     (case spec_explicit_list val of
        Some l \<Rightarrow> l
      | None \<Rightarrow>
          (case spec_list_file fs val of
             Some l \<Rightarrow> l
           | None \<Rightarrow>
               (case spec_directory fs train_dir of
                  Some l \<Rightarrow> l
                | None \<Rightarrow> [])))"

text \<open>No training path is a plain file: listing it does not raise.\<close>

definition train_dirs_listable :: "filesystem \<Rightarrow> bool" where
  "train_dirs_listable fs =
     (list_all (\<lambda>p. case map_of fs p of Some (File r) \<Rightarrow> False | _ \<Rightarrow> True)
        [''hierarchical_data/sheep_breeds/train'', ''hierarchical_data/bovine_breeds/train''])"

section \<open>Correction ledger and active-learning queue\<close>

text \<open>
  \<^verbatim>\<open>
  def save_correction(image_hash, predicted, actual, confidence):
      try:
          file_exists = CORRECTIONS_FILE.exists()
          with open(CORRECTIONS_FILE, 'a', newline='') as f:
              writer = csv.writer(f)
              if not file_exists:
                  writer.writerow(['timestamp', 'image_hash', 'predicted', 'actual', 'confidence'])
              writer.writerow([datetime.now().isoformat(), image_hash, predicted, actual, confidence])
          return True
      except Exception as e:
          st.error(f"Failed to save correction: {e}")
          return False
  \<close>
  \<^verbatim>\<open>corrections.csv\<close> is absent or holds a text. The file is opened for appending, which
  creates it when it is absent. The rows go through \<^verbatim>\<open>csv.writer\<close> into the buffer of the file
  object, and the buffered text reaches the file when the buffer is flushed, at the latest
  when the \<^verbatim>\<open>with\<close> block closes the file. Whatever raises inside \<^verbatim>\<open>try\<close> gives \<^verbatim>\<open>False\<close>.

  The text \<^verbatim>\<open>csv.writer\<close> makes of a row (the fields joined by commas, quoted where needed,
  and the line end) and the text Python prints for the float are results of the library:
  the two fields of a \<open>csv_lib\<close>.

  Storage can fail, and \<open>fault\<close> says how this call would:
  \<^item> \<open>OpenFails\<close>: the existence test or the open raises, and the file is left as it was;
  \<^item> \<open>WriteFails k\<close>: the file is opened, and the block raises when the first \<open>k\<close> bytes of
    the text of this call have reached the file: nothing of it, a fragment, or all of it
    (\<open>k\<close> at least its length, the failure coming at the close).
\<close>

record csv_lib =
  writerow :: "string list \<Rightarrow> string"
  str_float :: "real \<Rightarrow> string"

type_synonym csv_file = "string option"

datatype fault = NoFault | OpenFails | WriteFails nat

definition header_fields :: "string list" where
  "header_fields = [''timestamp'', ''image_hash'', ''predicted'', ''actual'', ''confidence'']"

definition save_correction_try ::
  "csv_lib \<Rightarrow> fault \<Rightarrow> string \<Rightarrow> csv_file \<Rightarrow> string \<Rightarrow> string \<Rightarrow> string \<Rightarrow> real \<Rightarrow>
     csv_file \<times> (error + unit)" where
  "save_correction_try lib flt now file hash pred act conf =
     (let file_exists = (file \<noteq> None) in
      if flt = OpenFails then (file, Inl OSError)
      else
        let held = (case file of None \<Rightarrow> [] | Some content \<Rightarrow> content);
            buffered = (if file_exists then [] else writerow lib header_fields) @
                       writerow lib [now, hash, pred, act, str_float lib conf]
        in case flt of
             WriteFails k \<Rightarrow> (Some (held @ take k buffered), Inl OSError)
           | _ \<Rightarrow> (Some (held @ buffered), Inr ()))"

definition save_correction ::
  "csv_lib \<Rightarrow> fault \<Rightarrow> string \<Rightarrow> csv_file \<Rightarrow> string \<Rightarrow> string \<Rightarrow> string \<Rightarrow> real \<Rightarrow>
     csv_file \<times> bool" where
  "save_correction lib flt now file hash pred act conf =
     (case save_correction_try lib flt now file hash pred act conf of
        (file', Inl e) \<Rightarrow> (file', False)
      | (file', Inr u) \<Rightarrow> (file', True))"

text \<open>
  The two places of \<^verbatim>\<open>main\<close> that record a correction (the button under a suggestion and the
  correction form, both inside the breed stage) run the same statements:
  \<^verbatim>\<open>
  if save_correction(image_hash, br_label, actual_breed, br_conf):
      st.session_state.active_learning_queue.append({
          'image_hash': image_hash, 'predicted': br_label, 'actual': actual_breed,
          'confidence': br_conf, 'timestamp': datetime.now().isoformat()})
  else:
      st.error("Failed to save correction")
  \<close>
  A request gives the four arguments, the two readings of the clock and the storage fault.
  An entry of the queue is a \<open>correction\<close>.
\<close>

record correction =
  timestamp :: string
  image_hash :: string
  predicted :: string
  actual :: string
  confidence :: real

record request =
  req_fault :: fault
  req_hash :: string
  req_predicted :: string
  req_actual :: string
  req_confidence :: real
  write_time :: string
  queue_time :: string

record session =
  corrections_file :: csv_file
  active_learning_queue :: "correction list"

definition queue_entry :: "request \<Rightarrow> correction" where
  "queue_entry r = \<lparr>timestamp = queue_time r, image_hash = req_hash r, predicted = req_predicted r,
                    actual = req_actual r, confidence = req_confidence r\<rparr>"

definition record_correction :: "csv_lib \<Rightarrow> session \<Rightarrow> request \<Rightarrow> bool \<times> session" where
  "record_correction lib s r =
     (case save_correction lib (req_fault r) (write_time r) (corrections_file s)
             (req_hash r) (req_predicted r) (req_actual r) (req_confidence r) of
        (file', True) \<Rightarrow>
          (True, \<lparr>corrections_file = file',
                  active_learning_queue = active_learning_queue s @ [queue_entry r]\<rparr>)
      | (file', False) \<Rightarrow>
          (False, \<lparr>corrections_file = file', active_learning_queue = active_learning_queue s\<rparr>))"

fun record_all :: "csv_lib \<Rightarrow> session \<Rightarrow> request list \<Rightarrow> bool list \<times> session" where
  "record_all lib s [] = ([], s)"
| "record_all lib s (r # rs) =
     (case record_correction lib s r of
        (ok, s') \<Rightarrow> (case record_all lib s' rs of (oks, s'') \<Rightarrow> (ok # oks, s'')))"

text \<open>
  The text a file holds, the header line, the fields and the line of the row a request
  writes, and the requests that succeeded.
\<close>

definition file_text :: "csv_file \<Rightarrow> string" where
  "file_text file = (case file of None \<Rightarrow> [] | Some content \<Rightarrow> content)"

definition header_line :: "csv_lib \<Rightarrow> string" where
  "header_line lib = writerow lib header_fields"

definition row_fields :: "csv_lib \<Rightarrow> request \<Rightarrow> string list" where
  "row_fields lib r =
     [write_time r, req_hash r, req_predicted r, req_actual r, str_float lib (req_confidence r)]"

definition row_line :: "csv_lib \<Rightarrow> request \<Rightarrow> string" where
  "row_line lib r = writerow lib (row_fields lib r)"

definition succeeded :: "request list \<Rightarrow> bool list \<Rightarrow> request list" where
  "succeeded rs oks = map fst (filter snd (zip rs oks))"

section \<open>The pipeline of \<^verbatim>\<open>app_comprehensive.py\<close>\<close>

text \<open>
  \<^verbatim>\<open>main\<close> runs its loop body once for each uploaded image. What the body shows, calls and
  records is a list of events, in order; an exception ends the run with the events so far,
  as the script stops where it raises. The exceptions are those of the model calls, of the
  numpy and list reads and of the reads of names (globals of the module and locals of
  \<^verbatim>\<open>main\<close>); decoding the upload and the Streamlit calls that draw the page are taken to
  return.
\<close>

record history_entry =
  hist_timestamp :: string
  hist_image_hash :: string
  hist_filename :: string
  hist_species :: string
  hist_species_confidence :: real
  hist_breed :: "string option"
  hist_breed_confidence :: "real option"
  hist_inference_time :: real

datatype model_id = SpeciesModel | BreedModel head

datatype message = SpeciesModelFailed | NoLabelsFound head | BreedModelFailed head

datatype event =
    QualityShown quality_results
  | Predict model_id
  | SpeciesShown string real bool
  | GuardrailShown "string \<times> real" "string \<times> real"
  | BreedShown string real bool
  | HistoryAppended history_entry
  | ErrorShown message

type_synonym 'a run = "event list \<times> (error + 'a)"

definition unit_run :: "'a \<Rightarrow> 'a run" where
  "unit_run x = ([], Inr x)"

definition emit :: "event \<Rightarrow> unit run" where
  "emit e = ([e], Inr ())"

definition lift_err :: "error + 'a \<Rightarrow> 'a run" where
  "lift_err r = ([], r)"

definition then_run :: "'a run \<Rightarrow> ('a \<Rightarrow> 'b run) \<Rightarrow> 'b run" where
  "then_run m f =
     (case m of
        (t, Inl e) \<Rightarrow> (t, Inl e)
      | (t, Inr x) \<Rightarrow> (case f x of (t', r) \<Rightarrow> (t @ t', r)))"

text \<open>
  The settings of a run: the sidebar's values and whether the species model was loaded.

  The label tables are not among them. \<^verbatim>\<open>main\<close> reads the names \<^verbatim>\<open>species_labels\<close>,
  \<^verbatim>\<open>sheep_labels\<close> and \<^verbatim>\<open>bovine_labels\<close> (lines 770, 797, 801 and 816), which it does not
  assign: they are looked up among the globals of the module. No statement of
  \<^verbatim>\<open>app_comprehensive.py\<close> binds them: none assigns them, no import brings them, and
  \<^verbatim>\<open>ensure_labels\<close>, which computes such a table, is not called. \<open>module_label_tables\<close> is
  what the module's namespace holds under these names, and reading a name that is not
  there raises \<^verbatim>\<open>NameError\<close>.

  An upload gives, for one image, what the quality gate measures and what each expression
  \<^verbatim>\<open>model.predict(img_batch, verbose=0)[0]\<close> yields on it: a probability vector or an
  exception. The batch is the image after the crop assistant and \<^verbatim>\<open>prepare_image\<close>, the same
  for the three models.
\<close>

record settings =
  offline_mode :: bool
  privacy_mode :: bool
  species_threshold :: real
  breed_threshold :: real
  enable_quality_check :: bool
  max_file_size_mb :: nat
  top_k :: nat
  species_model_loaded :: bool

definition module_label_tables :: "(string \<times> string list) list" where
  "module_label_tables = []"

definition read_global :: "string \<Rightarrow> error + string list" where
  "read_global name =
     (case map_of module_label_tables name of None \<Rightarrow> Inl NameError | Some table \<Rightarrow> Inr table)"

record upload =
  up_name :: string
  up_hash :: string
  up_stats :: image_stats
  up_size :: "nat option"
  species_out :: "error + real list"
  sheep_out :: "error + real list"
  bovine_out :: "error + real list"
  up_inference_time :: real
  up_now :: string

definition predict :: "model_id \<Rightarrow> error + real list \<Rightarrow> real list run" where
  "predict m out = then_run (emit (Predict m)) (\<lambda>u. lift_err out)"

definition breed_out :: "head \<Rightarrow> upload \<Rightarrow> error + real list" where
  "breed_out h u = (case h of Sheep \<Rightarrow> sheep_out u | Bovine \<Rightarrow> bovine_out u)"

definition quality_section :: "settings \<Rightarrow> upload \<Rightarrow> unit run" where
  "quality_section cfg u =
     (if enable_quality_check cfg
      then emit (QualityShown
             (assess_image_quality (up_stats u) (up_size u)
                (Some (max_file_size_mb cfg * 1024 * 1024))))
      else unit_run ())"

text \<open>\<^verbatim>\<open>max(sp_probs)\<close>.\<close>

definition py_max :: "real list \<Rightarrow> error + real" where
  "py_max xs = (case xs of [] \<Rightarrow> Inl ValueError | x # rest \<Rightarrow> Inr (fold max rest x))"

text \<open>
  \<^verbatim>\<open>
  if st.session_state.offline_mode and species_model:
      sp_probs = species_model.predict(img_batch, verbose=0)[0]
      sp_label = "bovine" if sp_probs[0] > 0.5 else "sheep"
      sp_conf = max(sp_probs)
      breed_probs = np.random.dirichlet(np.ones(5))
  else:
      sp_probs = species_model.predict(img_batch, verbose=0)[0]
      sp_idx = int(np.argmax(sp_probs))
      sp_label = species_labels[sp_idx] if sp_idx < len(species_labels) else "unknown"
      sp_conf = float(sp_probs[sp_idx])
  \<close>
  The random \<^verbatim>\<open>breed_probs\<close> of the first branch is read nowhere in offline mode. In the second
  branch \<^verbatim>\<open>species_model\<close> may be \<^verbatim>\<open>None\<close>, and calling it raises; the condition
  \<^verbatim>\<open>sp_idx < len(species_labels)\<close> is the first read of the name \<^verbatim>\<open>species_labels\<close>.
\<close>

definition species_stage :: "settings \<Rightarrow> upload \<Rightarrow> (string \<times> real) run" where
  "species_stage cfg u =
     (if offline_mode cfg \<and> species_model_loaded cfg then
        then_run (predict SpeciesModel (species_out u)) (\<lambda>sp_probs.
        then_run (lift_err (py_index sp_probs 0)) (\<lambda>p0.
        then_run (lift_err (py_max sp_probs)) (\<lambda>sp_conf.
        unit_run (if 0.5 < p0 then ''bovine'' else ''sheep'', sp_conf))))
      else
        then_run (predict SpeciesModel
                    (if species_model_loaded cfg then species_out u else Inl AttributeError))
          (\<lambda>sp_probs.
        then_run (lift_err (argmax sp_probs)) (\<lambda>sp_idx.
        then_run (lift_err (read_global ''species_labels'')) (\<lambda>species_labels.
        lift_err (pick species_labels ''unknown'' sp_probs sp_idx)))))"

text \<open>
  The guardrail, under \<^verbatim>\<open>if (sp_conf < species_threshold) and (not st.session_state.offline_mode)\<close>:
  both heads are called, sheep first, then both indices are taken, then both pairs are built
  (each reads its label table, \<^verbatim>\<open>sheep_labels\<close> and then \<^verbatim>\<open>bovine_labels\<close>) and shown in two
  \<^verbatim>\<open>st.metric\<close> cells. No statement of the block is inside a \<^verbatim>\<open>try\<close>.
\<close>

definition guardrail_stage :: "settings \<Rightarrow> upload \<Rightarrow> real \<Rightarrow> unit run" where
  "guardrail_stage cfg u sp_conf =
     (if sp_conf < species_threshold cfg \<and> \<not> offline_mode cfg then
        then_run (predict (BreedModel Sheep) (sheep_out u)) (\<lambda>sheep_probs_guard.
        then_run (predict (BreedModel Bovine) (bovine_out u)) (\<lambda>bovine_probs_guard.
        then_run (lift_err (argmax sheep_probs_guard)) (\<lambda>sheep_idx_guard.
        then_run (lift_err (argmax bovine_probs_guard)) (\<lambda>bovine_idx_guard.
        then_run (lift_err (read_global ''sheep_labels'')) (\<lambda>sheep_labels.
        then_run (lift_err (pick sheep_labels (class_placeholder Sheep sheep_idx_guard)
                              sheep_probs_guard sheep_idx_guard)) (\<lambda>sheep_best.
        then_run (lift_err (read_global ''bovine_labels'')) (\<lambda>bovine_labels.
        then_run (lift_err (pick bovine_labels (class_placeholder Bovine bovine_idx_guard)
                              bovine_probs_guard bovine_idx_guard)) (\<lambda>bovine_best.
        emit (GuardrailShown sheep_best bovine_best)))))))))
      else unit_run ())"

text \<open>
  The suggestions under the breed result read
  \<^verbatim>\<open>int(np.argsort(breed_probs)[::-1][i])\<close> for \<^verbatim>\<open>i in range(min(top_k, len(labels)))\<close>: the
  index \<^verbatim>\<open>i\<close> is out of range as soon as it reaches the length of the vector. The rows
  themselves are presentation; only this failure is kept.
\<close>

definition top_suggestions :: "nat \<Rightarrow> string list \<Rightarrow> real list \<Rightarrow> error + unit" where
  "top_suggestions k labels breed_probs =
     (if min k (length labels) \<le> length breed_probs then Inr () else Inl IndexError)"

text \<open>
  The breed stage, under \<^verbatim>\<open>if sp_conf >= species_threshold and not st.session_state.offline_mode\<close>:
  \<^verbatim>\<open>
  head = "sheep" if sp_label.lower() == "sheep" else "bovine"
  labels = sheep_labels if head == "sheep" else bovine_labels
  breed_probs = (sheep_model.predict(img_batch, verbose=0)[0] if head == "sheep"
                 else bovine_model.predict(img_batch, verbose=0)[0])
  \<close>
  then the top-1 outcome is read and shown. The second line reads the label table of the
  head, before the model is called. \<^verbatim>\<open>br_label\<close> and \<^verbatim>\<open>br_conf\<close> are locals of \<^verbatim>\<open>main\<close>: the
  stage takes their binding (\<open>None\<close> when they are unbound) and returns the new one.
\<close>

definition route :: "string \<Rightarrow> head" where
  "route sp_label = (if lower sp_label = ''sheep'' then Sheep else Bovine)"

definition head_labels :: "head \<Rightarrow> error + string list" where
  "head_labels h =
     (case h of Sheep \<Rightarrow> read_global ''sheep_labels'' | Bovine \<Rightarrow> read_global ''bovine_labels'')"

definition breed_stage ::
  "settings \<Rightarrow> upload \<Rightarrow> string \<Rightarrow> real \<Rightarrow> (string \<times> real) option \<Rightarrow> (string \<times> real) option run" where
  "breed_stage cfg u sp_label sp_conf bound =
     (if species_threshold cfg \<le> sp_conf \<and> \<not> offline_mode cfg then
        (let h = route sp_label in
         then_run (lift_err (head_labels h)) (\<lambda>labels.
         then_run (predict (BreedModel h) (breed_out h u)) (\<lambda>breed_probs.
         then_run (lift_err (breed_top1 h labels breed_probs)) (\<lambda>br.
         then_run (emit (BreedShown (fst br) (snd br) (breed_threshold cfg \<le> snd br))) (\<lambda>x.
         then_run (lift_err (top_suggestions (top_k cfg) labels breed_probs)) (\<lambda>y.
         unit_run (Some br)))))))
      else unit_run bound)"

text \<open>
  \<^verbatim>\<open>
  if not st.session_state.privacy_mode:
      st.session_state.session_history.append({
          ...
          'species': sp_label,
          'species_confidence': sp_conf,
          'breed': br_label if sp_conf >= species_threshold else None,
          'breed_confidence': br_conf if sp_conf >= species_threshold else None,
          'inference_time': inference_time})
  \<close>
  Reading an unbound local raises \<^verbatim>\<open>UnboundLocalError\<close>.
\<close>

definition read_local :: "'a option \<Rightarrow> error + 'a" where
  "read_local b = (case b of None \<Rightarrow> Inl UnboundLocalError | Some v \<Rightarrow> Inr v)"

definition history_stage ::
  "settings \<Rightarrow> upload \<Rightarrow> string \<Rightarrow> real \<Rightarrow> (string \<times> real) option \<Rightarrow> unit run" where
  "history_stage cfg u sp_label sp_conf bound =
     (if \<not> privacy_mode cfg then
        then_run (lift_err (if species_threshold cfg \<le> sp_conf
                            then bind_err (read_local bound) (\<lambda>br. Inr (Some (fst br)))
                            else Inr None)) (\<lambda>breed.
        then_run (lift_err (if species_threshold cfg \<le> sp_conf
                            then bind_err (read_local bound) (\<lambda>br. Inr (Some (snd br)))
                            else Inr None)) (\<lambda>breed_confidence.
        emit (HistoryAppended
               \<lparr>hist_timestamp = up_now u, hist_image_hash = up_hash u,
                hist_filename = up_name u, hist_species = sp_label,
                hist_species_confidence = sp_conf, hist_breed = breed,
                hist_breed_confidence = breed_confidence,
                hist_inference_time = up_inference_time u\<rparr>)))
      else unit_run ())"

text \<open>
  The loop body: the quality section, then the inference (species stage and its display,
  guardrail, breed stage, history). The flag of \<open>SpeciesShown\<close> and \<open>BreedShown\<close> is that
  the confidence reaches its threshold.
\<close>

definition inference ::
  "settings \<Rightarrow> (string \<times> real) option \<Rightarrow> upload \<Rightarrow> (string \<times> real) option run" where
  "inference cfg bound u =
     then_run (species_stage cfg u) (\<lambda>sp.
     then_run (emit (SpeciesShown (fst sp) (snd sp) (species_threshold cfg \<le> snd sp))) (\<lambda>x.
     then_run (guardrail_stage cfg u (snd sp)) (\<lambda>g.
     then_run (breed_stage cfg u (fst sp) (snd sp) bound) (\<lambda>bound'.
     then_run (history_stage cfg u (fst sp) (snd sp) bound') (\<lambda>h.
     unit_run bound')))))"

definition process_image ::
  "settings \<Rightarrow> (string \<times> real) option \<Rightarrow> upload \<Rightarrow> (string \<times> real) option run" where
  "process_image cfg bound u =
     then_run (quality_section cfg u) (\<lambda>q. inference cfg bound u)"

text \<open>
  The loop over the uploads: the locals are unbound when \<^verbatim>\<open>main\<close> starts, each image runs
  with the bindings the one before left, and the first exception ends the loop.
\<close>

fun main_loop :: "settings \<Rightarrow> (string \<times> real) option \<Rightarrow> upload list \<Rightarrow> (string \<times> real) option run list" where
  "main_loop cfg bound [] = []"
| "main_loop cfg bound (u # us) =
     (case process_image cfg bound u of
        (t, Inl e) \<Rightarrow> [(t, Inl e)]
      | (t, Inr bound') \<Rightarrow> (t, Inr bound') # main_loop cfg bound' us)"

definition main :: "settings \<Rightarrow> upload list \<Rightarrow> (string \<times> real) option run list" where
  "main cfg uploaded_files = main_loop cfg None uploaded_files"

text \<open>What a trace shows: the observations the statements below are about.\<close>

definition shown_species :: "event list \<Rightarrow> (string \<times> real) list" where
  "shown_species t = concat (map (\<lambda>e. case e of SpeciesShown l c a \<Rightarrow> [(l, c)] | _ \<Rightarrow> []) t)"

definition shown_breed :: "event list \<Rightarrow> (string \<times> real) list" where
  "shown_breed t = concat (map (\<lambda>e. case e of BreedShown l c a \<Rightarrow> [(l, c)] | _ \<Rightarrow> []) t)"

definition shown_guardrail :: "event list \<Rightarrow> ((string \<times> real) \<times> (string \<times> real)) list" where
  "shown_guardrail t = concat (map (\<lambda>e. case e of GuardrailShown s b \<Rightarrow> [(s, b)] | _ \<Rightarrow> []) t)"

definition recorded :: "event list \<Rightarrow> history_entry list" where
  "recorded t = concat (map (\<lambda>e. case e of HistoryAppended h \<Rightarrow> [h] | _ \<Rightarrow> []) t)"

definition breed_calls :: "event list \<Rightarrow> head list" where
  "breed_calls t = concat (map (\<lambda>e. case e of Predict (BreedModel h) \<Rightarrow> [h] | _ \<Rightarrow> []) t)"

definition shown_errors :: "event list \<Rightarrow> message list" where
  "shown_errors t = concat (map (\<lambda>e. case e of ErrorShown m \<Rightarrow> [m] | _ \<Rightarrow> []) t)"

definition without_quality :: "'a run \<Rightarrow> 'a run" where
  "without_quality r =
     (filter (\<lambda>e. case e of QualityShown q \<Rightarrow> False | _ \<Rightarrow> True) (fst r), snd r)"

section \<open>The page of \<^verbatim>\<open>app.py\<close>\<close>

text \<open>
  \<^verbatim>\<open>app.py\<close> runs the two stages once for the uploaded image, with the label tables of
  \<^verbatim>\<open>resolve_all_labels\<close>, which the script stores in the session state when it starts. A
  model call is inside \<^verbatim>\<open>try\<close>: on an exception the page shows an error and \<^verbatim>\<open>st.stop()\<close>
  ends the script. Before the breed model is called:
  \<^verbatim>\<open>
  if not labels:
      st.error(f"No {head} labels found. Ensure labels JSON or train folders exist.")
      st.stop()
  \<close>
  The flag of \<open>SpeciesShown\<close> and \<open>BreedShown\<close> is here that the confidence reaches 0.50 (below
  it the page asks for a manual check).
\<close>

definition stop_with :: "message \<Rightarrow> 'a run" where
  "stop_with m = then_run (emit (ErrorShown m)) (\<lambda>u. lift_err (Inl StopScript))"

definition app_predict :: "model_id \<Rightarrow> error + real list \<Rightarrow> message \<Rightarrow> real list run" where
  "app_predict m out msg =
     then_run (emit (Predict m)) (\<lambda>u.
       case out of Inl e \<Rightarrow> stop_with msg | Inr probs \<Rightarrow> unit_run probs)"

definition app_page :: "string list \<Rightarrow> string list \<Rightarrow> string list \<Rightarrow> upload \<Rightarrow> unit run" where
  "app_page species_labels' sheep_labels' bovine_labels' u =
     then_run (app_predict SpeciesModel (species_out u) SpeciesModelFailed) (\<lambda>sp_probs.
     then_run (lift_err (species_top1 species_labels' sp_probs)) (\<lambda>sp.
     then_run (emit (SpeciesShown (fst sp) (snd sp) (0.5 \<le> snd sp))) (\<lambda>x.
     (let h = route (fst sp);
          labels = (case h of Sheep \<Rightarrow> sheep_labels' | Bovine \<Rightarrow> bovine_labels') in
      if labels = [] then stop_with (NoLabelsFound h)
      else
        then_run (app_predict (BreedModel h) (breed_out h u) (BreedModelFailed h)) (\<lambda>br_probs.
        then_run (lift_err (breed_top1 h labels br_probs)) (\<lambda>br.
        emit (BreedShown (fst br) (snd br) (0.5 \<le> snd br))))))))"

text \<open>
  The page has a second uploader, for a next image. Its bytes are kept in the session state
  and processed at the end of the script (lines 317 to 360, under the comment
  \<^verbatim>\<open>same code as above, compact form\<close>). There the model calls are not inside \<^verbatim>\<open>try\<close>, and
  the breed stage is
  \<^verbatim>\<open>
  head = "sheep" if sp_label.lower() == "sheep" else "bovine"
  labels = (st.session_state.get("sheep_labels", []) if head == "sheep"
            else st.session_state.get("bovine_labels", []))
  if labels:
      br_probs = models[head].predict(np.expand_dims(arr, 0), verbose=0)[0]
      ...
  \<close>
  with no \<^verbatim>\<open>else\<close>.
\<close>

definition app_next_page :: "string list \<Rightarrow> string list \<Rightarrow> string list \<Rightarrow> upload \<Rightarrow> unit run" where
  "app_next_page species_labels' sheep_labels' bovine_labels' u =
     then_run (predict SpeciesModel (species_out u)) (\<lambda>sp_probs.
     then_run (lift_err (species_top1 species_labels' sp_probs)) (\<lambda>sp.
     then_run (emit (SpeciesShown (fst sp) (snd sp) (0.5 \<le> snd sp))) (\<lambda>x.
     (let h = route (fst sp);
          labels = (case h of Sheep \<Rightarrow> sheep_labels' | Bovine \<Rightarrow> bovine_labels') in
      if labels \<noteq> [] then
        then_run (predict (BreedModel h) (breed_out h u)) (\<lambda>br_probs.
        then_run (lift_err (breed_top1 h labels br_probs)) (\<lambda>br.
        emit (BreedShown (fst br) (snd br) (0.5 \<le> snd br))))
      else unit_run ()))))"

section \<open>Example inputs\<close>

text \<open>
  A run with the default thresholds (species 0.80, breed 0.70), a sharp and well lit image of
  600 by 600 pixels, and the vectors of the three models on it.
\<close>

definition example_settings :: settings where
  "example_settings =
     \<lparr>offline_mode = False, privacy_mode = False, species_threshold = 0.8,
      breed_threshold = 0.7, enable_quality_check = True, max_file_size_mb = 5, top_k = 3,
      species_model_loaded = True\<rparr>"

definition example_stats :: image_stats where
  "example_stats =
     \<lparr>width = 600, height = 600, laplacian_variance = 130, gray_mean = 153, gray_std = 51\<rparr>"

definition example_upload :: upload where
  "example_upload =
     \<lparr>up_name = ''cow.jpg'', up_hash = ''9f2c'', up_stats = example_stats, up_size = Some 2048,
      species_out = Inr [0.92, 0.08], sheep_out = Inr [0.6, 0.4],
      bovine_out = Inr [0.75, 0.15, 0.1], up_inference_time = 210,
      up_now = ''2024-05-01T10:00:00''\<rparr>"

text \<open>
  Variations: an image the species model is unsure about, the same with a sheep model that
  fails, an image of a sheep, and a run in offline mode.
\<close>

definition uncertain_upload :: upload where
  "uncertain_upload = example_upload\<lparr>species_out := Inr [0.55, 0.45]\<rparr>"


definition sheep_upload :: upload where
  "sheep_upload = example_upload\<lparr>species_out := Inr [0.1, 0.9]\<rparr>"

definition offline_settings :: settings where
  "offline_settings = example_settings\<lparr>offline_mode := True\<rparr>"

text \<open>
  A configuration whose sheep labels point to a file holding an empty list, beside a training
  directory with two breed folders and a text file; the bovine labels are given in place.
\<close>

definition example_files :: filesystem where
  "example_files =
     [(''artifacts_hier/sheep_labels.json'', File (Inr (JList []))),
      (''hierarchical_data/sheep_breeds/train'',
         Dir [(''Nellore'', True), (''Deccani'', True), (''notes.txt'', False)])]"

definition example_config :: config where
  "example_config =
     [(''sheep_labels'', JString ''artifacts_hier/sheep_labels.json''),
      (''bovine_labels'', JList [JString ''Gir'', JString ''Sahiwal''])]"

text \<open>
  Correction requests on a fresh session. None of their fields holds a comma, a quote or a
  line break, and for such fields \<^verbatim>\<open>csv.writer\<close> writes them joined by commas and ends the
  line with CR LF; the confidence of each is 0.62, which Python prints as \<^verbatim>\<open>0.62\<close>.
\<close>

fun join_fields :: "string list \<Rightarrow> string" where
  "join_fields [] = []"
| "join_fields [f] = f"
| "join_fields (f # g # fs) = f @ '','' @ join_fields (g # fs)"

definition plain_row :: "string list \<Rightarrow> string" where
  "plain_row row = join_fields row @ [CHR 0x0D, CHR 0x0A]"

definition example_lib :: csv_lib where
  "example_lib = \<lparr>writerow = plain_row, str_float = (\<lambda>x. ''0.62'')\<rparr>"

definition example_request :: request where
  "example_request =
     \<lparr>req_fault = NoFault, req_hash = ''9f2c'', req_predicted = ''Gir'',
      req_actual = ''Sahiwal'', req_confidence = 0.62,
      write_time = ''2024-05-01T10:00:01'', queue_time = ''2024-05-01T10:00:02''\<rparr>"

definition second_request :: request where
  "second_request =
     example_request\<lparr>req_actual := ''Jersey'', write_time := ''2024-05-01T10:00:03'',
                      queue_time := ''2024-05-01T10:00:04''\<rparr>"

text \<open>
  The same request with a storage fault: the block raises at the close, when all the 93
  bytes of the header and the row have reached the file; and the block raises when 10 bytes
  have reached it.
\<close>

definition close_fails_request :: request where
  "close_fails_request = example_request\<lparr>req_fault := WriteFails 93\<rparr>"

definition fragment_request :: request where
  "fragment_request = example_request\<lparr>req_fault := WriteFails 10\<rparr>"

definition fresh_session :: session where
  "fresh_session = \<lparr>corrections_file = None, active_learning_queue = []\<rparr>"

section \<open>Facts about the building blocks\<close>

lemma argmax_from_bound:
  "pos < i \<Longrightarrow> argmax_from xs i best pos < i + length xs"
  by (induction xs i best pos rule: argmax_from.induct) auto

lemma argmax_in_range:
  "argmax probs = Inr idx \<Longrightarrow> idx < length probs"
  using argmax_from_bound [of 0 1]
  by (auto simp: argmax_def split: list.splits)

lemma argmax_nonempty:
  "probs \<noteq> [] \<Longrightarrow> \<exists>idx. argmax probs = Inr idx"
  by (cases probs) (simp_all add: argmax_def)

lemma top1_total:
  "probs \<noteq> [] \<Longrightarrow> \<exists>r. species_top1 labels probs = Inr r"
  "probs \<noteq> [] \<Longrightarrow> \<exists>r. breed_top1 h labels probs = Inr r"
  "probs \<noteq> [] \<Longrightarrow> \<exists>i r. argmax probs = Inr i \<and> pick labels (ph i) probs i = Inr r"
proof -
  assume ne: "probs \<noteq> []"
  then obtain i where i: "argmax probs = Inr i"
    using argmax_nonempty by blast
  then have "i < length probs"
    by (rule argmax_in_range)
  then have p: "\<exists>r. pick labels x probs i = Inr r" for x
    by (simp add: pick_def py_index_def bind_err_def)
  show "\<exists>r. species_top1 labels probs = Inr r"
    using i p by (simp add: species_top1_def bind_err_def)
  show "\<exists>r. breed_top1 h labels probs = Inr r"
    using i p by (simp add: breed_top1_def bind_err_def)
  show "\<exists>i r. argmax probs = Inr i \<and> pick labels (ph i) probs i = Inr r"
    using i p by simp
qed

lemma brightness_rule_pass:
  "pass (brightness_rule b) = (1/4 \<le> b \<and> b \<le> 3/4)"
  by (simp add: brightness_rule_def)

lemma brightness_rule_score:
  "score (brightness_rule b) = (if b < 1/2 then b / (1/4) else 1)"
  by (simp add: brightness_rule_def min_def)

subsection \<open>Runs\<close>

lemma then_run_pair [simp]:
  "then_run (t, r) f = (case r of Inl e \<Rightarrow> (t, Inl e) | Inr x \<Rightarrow> (t @ fst (f x), snd (f x)))"
  by (simp add: then_run_def split: prod.splits sum.splits)

lemma then_run_unit [simp]: "then_run (unit_run x) f = f x"
  by (simp add: unit_run_def)

lemma then_run_emit [simp]: "then_run (emit e) f = (e # fst (f ()), snd (f ()))"
  by (simp add: emit_def)

lemma then_run_lift [simp]:
  "then_run (lift_err r) f = (case r of Inl e \<Rightarrow> ([], Inl e) | Inr x \<Rightarrow> f x)"
  by (simp add: lift_err_def split: sum.splits)

lemma then_run_completes:
  "then_run m f = (t, Inr y) \<Longrightarrow>
     \<exists>t1 x t2. m = (t1, Inr x) \<and> f x = (t2, Inr y) \<and> t = t1 @ t2"
  by (cases m; cases "snd m") (auto simp: prod_eq_iff)

lemma predict_run [simp]: "predict m out = ([Predict m], out)"
  by (simp add: predict_def lift_err_def)

lemmas observers = shown_species_def shown_breed_def shown_guardrail_def recorded_def
  breed_calls_def shown_errors_def

subsection \<open>The stages\<close>

lemma quality_section_run:
  "quality_section cfg u =
     (if enable_quality_check cfg
      then [QualityShown (assess_image_quality (up_stats u) (up_size u)
              (Some (max_file_size_mb cfg * 1024 * 1024)))]
      else [], Inr ())"
  by (simp add: quality_section_def emit_def unit_run_def)

lemma quality_section_silent:
  "shown_species (fst (quality_section cfg u) @ t) = shown_species t"
  "shown_breed (fst (quality_section cfg u) @ t) = shown_breed t"
  "shown_guardrail (fst (quality_section cfg u) @ t) = shown_guardrail t"
  "recorded (fst (quality_section cfg u) @ t) = recorded t"
  "breed_calls (fst (quality_section cfg u) @ t) = breed_calls t"
  "shown_errors (fst (quality_section cfg u) @ t) = shown_errors t"
  by (simp_all add: quality_section_run observers)

text \<open>No label table is bound: every read of one raises.\<close>

lemma read_global_unbound: "read_global name = Inl NameError"
  by (simp add: read_global_def module_label_tables_def)

lemma species_stage_trace: "fst (species_stage cfg u) = [Predict SpeciesModel]"
  by (simp add: species_stage_def unit_run_def lift_err_def read_global_unbound
      split: sum.splits)

lemma species_stage_online:
  "\<not> offline_mode cfg \<Longrightarrow> \<exists>e. species_stage cfg u = ([Predict SpeciesModel], Inl e)"
  by (simp add: species_stage_def read_global_unbound split: sum.splits)

lemma species_stage_name_error:
  "\<not> offline_mode cfg \<Longrightarrow> species_model_loaded cfg \<Longrightarrow> species_out u = Inr ps \<Longrightarrow> ps \<noteq> [] \<Longrightarrow>
     species_stage cfg u = ([Predict SpeciesModel], Inl NameError)"
  using argmax_nonempty [of ps]
  by (auto simp: species_stage_def read_global_unbound)

lemma guardrail_stage_skipped:
  "species_threshold cfg \<le> c \<or> offline_mode cfg \<Longrightarrow>
     guardrail_stage cfg u c = ([], Inr ())"
  by (auto simp: guardrail_stage_def unit_run_def)

lemma guardrail_stage_sheep_fails:
  "c < species_threshold cfg \<Longrightarrow> \<not> offline_mode cfg \<Longrightarrow> sheep_out u = Inl e \<Longrightarrow>
     guardrail_stage cfg u c = ([Predict (BreedModel Sheep)], Inl e)"
  by (simp add: guardrail_stage_def)

lemma guardrail_stage_bovine_fails:
  "c < species_threshold cfg \<Longrightarrow> \<not> offline_mode cfg \<Longrightarrow> sheep_out u = Inr ps \<Longrightarrow>
   bovine_out u = Inl e \<Longrightarrow>
     guardrail_stage cfg u c = ([Predict (BreedModel Sheep), Predict (BreedModel Bovine)], Inl e)"
  by (simp add: guardrail_stage_def)

lemma guardrail_stage_raises:
  "c < species_threshold cfg \<Longrightarrow> \<not> offline_mode cfg \<Longrightarrow>
     \<exists>t e. guardrail_stage cfg u c = (t, Inl e)"
  by (simp add: guardrail_stage_def read_global_unbound split: sum.splits)

lemma breed_stage_skipped:
  "c < species_threshold cfg \<or> offline_mode cfg \<Longrightarrow>
     breed_stage cfg u l c bound = ([], Inr bound)"
  by (auto simp: breed_stage_def unit_run_def)

lemma breed_stage_raises:
  "species_threshold cfg \<le> c \<Longrightarrow> \<not> offline_mode cfg \<Longrightarrow>
     breed_stage cfg u l c bound = ([], Inl NameError)"
  by (cases "route l") (simp_all add: breed_stage_def head_labels_def read_global_unbound)

lemma history_stage_private:
  "privacy_mode cfg \<Longrightarrow> history_stage cfg u l c bound = ([], Inr ())"
  by (simp add: history_stage_def unit_run_def)

lemma history_stage_completes:
  "\<not> privacy_mode cfg \<Longrightarrow> history_stage cfg u l c bound = (t, Inr x) \<Longrightarrow>
     \<exists>h. t = [HistoryAppended h] \<and>
       hist_breed h = (if species_threshold cfg \<le> c then map_option fst bound else None) \<and>
       (species_threshold cfg \<le> c \<longrightarrow> bound \<noteq> None)"
  by (auto simp: history_stage_def emit_def read_local_def bind_err_def
      split: sum.splits option.splits if_splits)

lemma history_stage_calls_no_model:
  "breed_calls (fst (history_stage cfg u l c bound)) = []"
  "shown_breed (fst (history_stage cfg u l c bound)) = []"
  "shown_guardrail (fst (history_stage cfg u l c bound)) = []"
  by (simp_all add: history_stage_def emit_def unit_run_def observers split: sum.splits)

subsection \<open>One image\<close>

lemma inference_completes:
  assumes "inference cfg bound u = (t, Inr b')"
  shows "\<exists>l c tg tb th.
    species_stage cfg u = ([Predict SpeciesModel], Inr (l, c)) \<and>
    guardrail_stage cfg u c = (tg, Inr ()) \<and>
    breed_stage cfg u l c bound = (tb, Inr b') \<and>
    history_stage cfg u l c b' = (th, Inr ()) \<and>
    t = [Predict SpeciesModel, SpeciesShown l c (species_threshold cfg \<le> c)] @ tg @ tb @ th"
proof -
  from assms [unfolded inference_def]
  obtain ts sp t1 where sp: "species_stage cfg u = (ts, Inr sp)"
    and r1: "then_run (emit (SpeciesShown (fst sp) (snd sp) (species_threshold cfg \<le> snd sp)))
       (\<lambda>x. then_run (guardrail_stage cfg u (snd sp)) (\<lambda>g.
            then_run (breed_stage cfg u (fst sp) (snd sp) bound) (\<lambda>bound'.
            then_run (history_stage cfg u (fst sp) (snd sp) bound') (\<lambda>h.
            unit_run bound')))) = (t1, Inr b')"
    and t: "t = ts @ t1"
    by (blast dest: then_run_completes)
  from then_run_completes [OF r1]
  obtain t2 where r2: "then_run (guardrail_stage cfg u (snd sp)) (\<lambda>g.
            then_run (breed_stage cfg u (fst sp) (snd sp) bound) (\<lambda>bound'.
            then_run (history_stage cfg u (fst sp) (snd sp) bound') (\<lambda>h.
            unit_run bound'))) = (t2, Inr b')"
    and t1: "t1 = SpeciesShown (fst sp) (snd sp) (species_threshold cfg \<le> snd sp) # t2"
    by (auto simp: emit_def)
  from then_run_completes [OF r2]
  obtain tg t3 where g: "guardrail_stage cfg u (snd sp) = (tg, Inr ())"
    and r3: "then_run (breed_stage cfg u (fst sp) (snd sp) bound) (\<lambda>bound'.
            then_run (history_stage cfg u (fst sp) (snd sp) bound') (\<lambda>h.
            unit_run bound')) = (t3, Inr b')"
    and t2: "t2 = tg @ t3"
    by auto
  from then_run_completes [OF r3]
  obtain tb b1 t4 where b: "breed_stage cfg u (fst sp) (snd sp) bound = (tb, Inr b1)"
    and r4: "then_run (history_stage cfg u (fst sp) (snd sp) b1) (\<lambda>h. unit_run b1) = (t4, Inr b')"
    and t3: "t3 = tb @ t4"
    by auto
  from then_run_completes [OF r4]
  obtain th where h: "history_stage cfg u (fst sp) (snd sp) b1 = (th, Inr ())"
    and b1: "b1 = b'" and t4: "t4 = th"
    by (auto simp: unit_run_def)
  have ts: "ts = [Predict SpeciesModel]"
    using species_stage_trace [of cfg u] sp by simp
  show ?thesis
    using sp g b h t t1 t2 t3 t4 b1 ts by (cases sp) auto
qed

lemma process_image_split:
  "process_image cfg bound u =
     (fst (quality_section cfg u) @ fst (inference cfg bound u), snd (inference cfg bound u))"
  by (simp add: process_image_def quality_section_run)

lemma observers_skip_quality:
  "shown_species (fst (process_image cfg bound u)) = shown_species (fst (inference cfg bound u))"
  "shown_breed (fst (process_image cfg bound u)) = shown_breed (fst (inference cfg bound u))"
  "shown_guardrail (fst (process_image cfg bound u)) = shown_guardrail (fst (inference cfg bound u))"
  "recorded (fst (process_image cfg bound u)) = recorded (fst (inference cfg bound u))"
  "breed_calls (fst (process_image cfg bound u)) = breed_calls (fst (inference cfg bound u))"
  "shown_errors (fst (process_image cfg bound u)) = shown_errors (fst (inference cfg bound u))"
  "snd (process_image cfg bound u) = snd (inference cfg bound u)"
  by (simp_all add: process_image_split quality_section_silent)

lemma process_image_completes:
  assumes "process_image cfg bound u = (t, Inr b')"
  shows "\<exists>l c tg tb th.
    species_stage cfg u = ([Predict SpeciesModel], Inr (l, c)) \<and>
    guardrail_stage cfg u c = (tg, Inr ()) \<and>
    breed_stage cfg u l c bound = (tb, Inr b') \<and>
    history_stage cfg u l c b' = (th, Inr ()) \<and>
    t = fst (quality_section cfg u) @
        [Predict SpeciesModel, SpeciesShown l c (species_threshold cfg \<le> c)] @ tg @ tb @ th"
proof -
  from assms obtain t' where i: "inference cfg bound u = (t', Inr b')"
    and t: "t = fst (quality_section cfg u) @ t'"
    by (auto simp: process_image_def quality_section_run prod_eq_iff)
  from inference_completes [OF i] t show ?thesis
    by auto
qed

lemma inference_stops_with_species_stage:
  "species_stage cfg u = (ts, Inl e) \<Longrightarrow> inference cfg bound u = (ts, Inl e)"
  by (simp add: inference_def)

lemma online_image_raises:
  assumes "\<not> offline_mode cfg"
  shows "\<exists>e. inference cfg bound u = ([Predict SpeciesModel], Inl e)"
  using species_stage_online [OF assms, of u] inference_stops_with_species_stage by blast

lemma completed_image_is_offline:
  "process_image cfg bound u = (t, Inr b) \<Longrightarrow> offline_mode cfg"
  using online_image_raises [of cfg bound u] by (auto simp: process_image_split prod_eq_iff)

lemma then_run_unit_trace: "fst (then_run m (\<lambda>x. unit_run y)) = fst m"
  by (cases m; cases "snd m") (auto simp: unit_run_def)

text \<open>
  In offline mode the guardrail and the breed stage are skipped, and outside it the species
  stage raises: no run of the loop body calls a breed model or shows a result of one.
\<close>

lemma no_breed_head_is_called:
  "breed_calls (fst (process_image cfg bound u)) = [] \<and>
   shown_guardrail (fst (process_image cfg bound u)) = [] \<and>
   shown_breed (fst (process_image cfg bound u)) = []"
proof (cases "offline_mode cfg")
  case False
  then obtain e where "inference cfg bound u = ([Predict SpeciesModel], Inl e)"
    using online_image_raises by blast
  then show ?thesis
    unfolding observers_skip_quality by (simp add: observers)
next
  case True
  obtain ts r where sp: "species_stage cfg u = (ts, r)"
    by (cases "species_stage cfg u")
  have ts: "ts = [Predict SpeciesModel]"
    using species_stage_trace [of cfg u] sp by simp
  show ?thesis
  proof (cases r)
    case (Inl e)
    then have "inference cfg bound u = ([Predict SpeciesModel], Inl e)"
      using sp ts inference_stops_with_species_stage by simp
    then show ?thesis
      unfolding observers_skip_quality by (simp add: observers)
  next
    case (Inr sp_result)
    have g: "guardrail_stage cfg u c = ([], Inr ())" for c
      using True by (simp add: guardrail_stage_skipped)
    have b: "breed_stage cfg u l c bound = ([], Inr bound)" for l c
      using True by (simp add: breed_stage_skipped)
    have i: "fst (inference cfg bound u) =
        [Predict SpeciesModel,
         SpeciesShown (fst sp_result) (snd sp_result) (species_threshold cfg \<le> snd sp_result)] @
        fst (history_stage cfg u (fst sp_result) (snd sp_result) bound)"
      using sp ts Inr by (simp add: inference_def g b then_run_unit_trace)
    have app: "breed_calls (xs @ ys) = breed_calls xs @ breed_calls ys"
      "shown_guardrail (xs @ ys) = shown_guardrail xs @ shown_guardrail ys"
      "shown_breed (xs @ ys) = shown_breed xs @ shown_breed ys" for xs ys
      by (simp_all add: observers)
    show ?thesis
      unfolding observers_skip_quality i app history_stage_calls_no_model
      by (simp add: observers)
  qed
qed

lemma inference_ignores_quality_inputs:
  "inference (cfg\<lparr>enable_quality_check := e, max_file_size_mb := m\<rparr>) bound
     (u\<lparr>up_stats := st, up_size := sz\<rparr>) = inference cfg bound u"
proof -
  have sp: "species_stage (cfg\<lparr>enable_quality_check := e, max_file_size_mb := m\<rparr>)
       (u\<lparr>up_stats := st, up_size := sz\<rparr>) = species_stage cfg u"
    by (simp add: species_stage_def)
  have g: "guardrail_stage (cfg\<lparr>enable_quality_check := e, max_file_size_mb := m\<rparr>)
       (u\<lparr>up_stats := st, up_size := sz\<rparr>) c = guardrail_stage cfg u c" for c
    by (simp add: guardrail_stage_def)
  have bo: "breed_out hh (u\<lparr>up_stats := st, up_size := sz\<rparr>) = breed_out hh u" for hh
    by (cases hh) (simp_all add: breed_out_def)
  have b: "breed_stage (cfg\<lparr>enable_quality_check := e, max_file_size_mb := m\<rparr>)
       (u\<lparr>up_stats := st, up_size := sz\<rparr>) l c bd = breed_stage cfg u l c bd" for l c bd
    by (simp add: breed_stage_def bo)
  have h: "history_stage (cfg\<lparr>enable_quality_check := e, max_file_size_mb := m\<rparr>)
       (u\<lparr>up_stats := st, up_size := sz\<rparr>) l c bd = history_stage cfg u l c bd" for l c bd
    by (simp add: history_stage_def)
  show ?thesis
    by (simp add: inference_def sp g b h)
qed

lemma without_quality_process_image:
  "without_quality (process_image cfg bound u) = without_quality (inference cfg bound u)"
  by (simp add: process_image_def quality_section_run without_quality_def)

subsection \<open>The loop\<close>

text \<open>A run that is not offline ends at its first image.\<close>

lemma online_run_stops_at_first_image:
  assumes "\<not> offline_mode cfg"
  shows "\<exists>t e. main cfg (u # us) = [(t, Inl e)]"
proof -
  obtain e where "inference cfg None u = ([Predict SpeciesModel], Inl e)"
    using online_image_raises [OF assms] by blast
  then have "process_image cfg None u =
      (fst (quality_section cfg u) @ [Predict SpeciesModel], Inl e)"
    by (simp add: process_image_split)
  then show ?thesis
    by (simp add: main_def)
qed

subsection \<open>The examples, evaluated\<close>

lemma example_inference:
  "inference example_settings None example_upload = ([Predict SpeciesModel], Inl NameError)"
  by code_simp


lemma offline_inference:
  "inference offline_settings None uncertain_upload =
     ([Predict SpeciesModel, SpeciesShown ''bovine'' 0.55 False,
       HistoryAppended
         \<lparr>hist_timestamp = ''2024-05-01T10:00:00'', hist_image_hash = ''9f2c'',
          hist_filename = ''cow.jpg'', hist_species = ''bovine'',
          hist_species_confidence = 0.55, hist_breed = None,
          hist_breed_confidence = None, hist_inference_time = 210\<rparr>],
      Inr None)"
  by code_simp

section \<open>Routing: breed stage and guardrail\<close>

text \<open>
  Claim C1 does not hold of \<^verbatim>\<open>app_comprehensive.py\<close>, at any image of a run that is not
  offline. The routing the claim describes is written in \<^verbatim>\<open>main\<close> (the guardrail at lines
  789 to 808, the breed stage from line 810), and no run reaches it. When the run is not
  offline the processing of the image ends with an exception in the species stage: it is
  \<^verbatim>\<open>NameError\<close> as soon as the species model has returned a vector that is not empty, raised
  by the read of \<^verbatim>\<open>species_labels\<close> at line 770, and otherwise the exception of the model
  call or of \<^verbatim>\<open>np.argmax\<close>. Whatever the species confidence, no species result is shown, no
  breed head is called, nothing is shown for the guardrail or for a breed, and nothing is
  recorded.
\<close>

theorem online_image_stops_at_species_labels:
  assumes "\<not> offline_mode cfg"
  shows "(\<exists>e. snd (process_image cfg bound u) = Inl e) \<and>
    (species_model_loaded cfg \<and> (\<exists>ps. species_out u = Inr ps \<and> ps \<noteq> []) \<longrightarrow>
       snd (process_image cfg bound u) = Inl NameError) \<and>
    shown_species (fst (process_image cfg bound u)) = [] \<and>
    breed_calls (fst (process_image cfg bound u)) = [] \<and>
    shown_guardrail (fst (process_image cfg bound u)) = [] \<and>
    shown_breed (fst (process_image cfg bound u)) = [] \<and>
    recorded (fst (process_image cfg bound u)) = []"
proof -
  obtain e where i: "inference cfg bound u = ([Predict SpeciesModel], Inl e)"
    using online_image_raises [OF assms] by blast
  have n: "e = NameError"
    if "species_model_loaded cfg \<and> (\<exists>ps. species_out u = Inr ps \<and> ps \<noteq> [])"
  proof -
    from that obtain ps where "species_model_loaded cfg" "species_out u = Inr ps" "ps \<noteq> []"
      by blast
    then have "inference cfg bound u = ([Predict SpeciesModel], Inl NameError)"
      using species_stage_name_error [OF assms] inference_stops_with_species_stage by blast
    with i show ?thesis
      by simp
  qed
  show ?thesis
    unfolding observers_skip_quality i using n by (simp add: observers)
qed

text \<open>
  The example image: not offline, the species model answers bovine at 0.92 against the
  threshold 0.80, and both breed models would answer. The claim has the breed stage run and
  its outcome recorded; the run ends with \<^verbatim>\<open>NameError\<close> and no breed head is called.
\<close>

theorem online_image_stops_at_species_labels_witness:
  "\<not> offline_mode example_settings \<and> species_model_loaded example_settings \<and>
   species_out example_upload = Inr [0.92, 0.08] \<and>
   species_threshold example_settings \<le> 0.92 \<and>
   snd (process_image example_settings None example_upload) = Inl NameError \<and>
   breed_calls (fst (process_image example_settings None example_upload)) = [] \<and>
   shown_breed (fst (process_image example_settings None example_upload)) = [] \<and>
   recorded (fst (process_image example_settings None example_upload)) = []"
  using online_image_stops_at_species_labels [of example_settings None example_upload]
  by (simp add: example_settings_def example_upload_def)

text \<open>
  An offline run calls no breed head either (\<open>no_breed_head_is_called\<close>), and one of its
  iterations does not complete: offline, with a species confidence that reaches the
  threshold and privacy mode off, the history entry reads \<^verbatim>\<open>br_label\<close>, which no statement
  has bound (the breed stage is skipped offline), and the run ends with
  \<^verbatim>\<open>UnboundLocalError\<close> before anything is recorded.
\<close>

lemma offline_confident_history_raises:
  assumes "offline_mode cfg" and "\<not> privacy_mode cfg"
    and "species_stage cfg u = (ts, Inr (l, c))" and "species_threshold cfg \<le> c"
  shows "snd (process_image cfg None u) = Inl UnboundLocalError \<and>
         recorded (fst (process_image cfg None u)) = []"
proof -
  have ts: "ts = [Predict SpeciesModel]"
    using species_stage_trace [of cfg u] assms(3) by simp
  have g: "guardrail_stage cfg u c = ([], Inr ())"
    using assms(1) by (simp add: guardrail_stage_skipped)
  have b: "breed_stage cfg u l c None = ([], Inr None)"
    using assms(1) by (simp add: breed_stage_skipped)
  have h: "history_stage cfg u l c None = ([], Inl UnboundLocalError)"
    using assms(2,4) by (simp add: history_stage_def read_local_def bind_err_def)
  have i: "inference cfg None u =
      ([Predict SpeciesModel, SpeciesShown l c (species_threshold cfg \<le> c)],
       Inl UnboundLocalError)"
    by (simp add: inference_def assms(3) ts g b h)
  show ?thesis
    unfolding observers_skip_quality i by (simp add: observers)
qed

section \<open>Empty label list of the routed head\<close>

text \<open>
  The first path of \<^verbatim>\<open>app.py\<close> keeps the rule of claim C2: when the label list of the routed
  head is empty, the page shows the error and stops, and the breed model is not called.
\<close>

lemma app_page_stops_on_empty_labels:
  assumes "species_out u = Inr sp_probs" and "species_top1 species' sp_probs = Inr (l, c)"
    and "(case route l of Sheep \<Rightarrow> sheep' | Bovine \<Rightarrow> bovine') = []"
  shows "app_page species' sheep' bovine' u =
     ([Predict SpeciesModel, SpeciesShown l c (0.5 \<le> c), ErrorShown (NoLabelsFound (route l))],
      Inl StopScript)"
  using assms
  by (simp add: app_page_def app_predict_def stop_with_def unit_run_def Let_def lift_err_def)

text \<open>
  The path of the next image does not: with an empty label list it skips the breed stage,
  shows no error and completes.
\<close>

lemma app_next_page_skips_on_empty_labels:
  assumes "species_out u = Inr sp_probs" and "species_top1 species' sp_probs = Inr (l, c)"
    and "(case route l of Sheep \<Rightarrow> sheep' | Bovine \<Rightarrow> bovine') = []"
  shows "app_next_page species' sheep' bovine' u =
     ([Predict SpeciesModel, SpeciesShown l c (0.5 \<le> c)], Inr ())"
  using assms
  by (simp add: app_next_page_def unit_run_def Let_def lift_err_def)

text \<open>
  The sheep label list is empty when the configuration names no sheep labels and there is no
  training directory to enumerate.
\<close>

lemma sheep_labels_can_be_empty:
  "resolve_all_labels [] [(''bovine_labels'', JList [JString ''Gir'', JString ''Sahiwal''])] =
     Inr ([JString ''bovine'', JString ''sheep''], [], [JString ''Gir'', JString ''Sahiwal''])"
  by (simp add: resolve_all_labels_def resolve_species_def default_species_def
      infer_labels_from_dir_def path_exists_def resolve_label_field_def cfg_get_def
      bind_err_def Let_def)

text \<open>
  Claim C2, evaluated on \<^verbatim>\<open>app.py\<close> with an empty sheep label list (no sheep labels in the
  configuration and no training directory) and an image of a sheep (0.90). As the next
  image it gets a species result and nothing else: no error is shown and the script goes
  on. As the first image it gets the error of the claim. Neither path calls the sheep model.
\<close>

theorem next_image_without_labels_shows_no_error:
  "app_next_page [''bovine'', ''sheep''] [] [''Gir'', ''Sahiwal''] sheep_upload =
     ([Predict SpeciesModel, SpeciesShown ''sheep'' 0.9 True], Inr ()) \<and>
   shown_errors (fst (app_next_page [''bovine'', ''sheep''] [] [''Gir'', ''Sahiwal''] sheep_upload))
     = [] \<and>
   breed_calls (fst (app_next_page [''bovine'', ''sheep''] [] [''Gir'', ''Sahiwal''] sheep_upload))
     = [] \<and>
   app_page [''bovine'', ''sheep''] [] [''Gir'', ''Sahiwal''] sheep_upload =
     ([Predict SpeciesModel, SpeciesShown ''sheep'' 0.9 True, ErrorShown (NoLabelsFound Sheep)],
      Inl StopScript)"
proof -
  have s: "species_out sheep_upload = Inr [0.1, 0.9]"
    by (simp add: sheep_upload_def)
  have t: "species_top1 [''bovine'', ''sheep''] [0.1, 0.9] = Inr (''sheep'', 0.9)"
    by (simp add: species_top1_def argmax_def pick_def py_index_def bind_err_def)
  have r: "route ''sheep'' = Sheep"
    by code_simp
  have e: "(case route ''sheep'' of Sheep \<Rightarrow> [] | Bovine \<Rightarrow> [''Gir'', ''Sahiwal'']) = []"
    by (simp add: r)
  show ?thesis
    unfolding app_next_page_skips_on_empty_labels [OF s t e]
      app_page_stops_on_empty_labels [OF s t e]
    by (simp add: observers r)
qed

section \<open>Label alignment\<close>

text \<open>
  Claim C3. For every classification outcome read from a probability vector and its label
  list (the species stage, the breed stage, and the two picks of the guardrail, which are
  \<open>pick\<close> at the argmax), reading the label never raises \<^verbatim>\<open>IndexError\<close>; and when the
  argmax index is at least the length of the label list, the index is still inside the
  vector and the label returned is the placeholder: \<^verbatim>\<open>"unknown"\<close> for the species,
  \<^verbatim>\<open>"<head>_class_<index>"\<close> for a breed.
\<close>

theorem label_alignment:
  "species_top1 labels probs \<noteq> Inl IndexError \<and>
   breed_top1 h labels probs \<noteq> Inl IndexError \<and>
   (argmax probs = Inr idx \<and> length labels \<le> idx \<longrightarrow>
      idx < length probs \<and>
      pick labels ph probs idx = Inr (ph, probs ! idx) \<and>
      species_top1 labels probs = Inr (''unknown'', probs ! idx) \<and>
      breed_top1 h labels probs = Inr (class_placeholder h idx, probs ! idx))"
proof (cases "argmax probs")
  case (Inl e)
  then have "e = ValueError"
    by (auto simp: argmax_def split: list.splits)
  with Inl show ?thesis
    by (simp add: species_top1_def breed_top1_def bind_err_def)
next
  case (Inr i)
  then have "i < length probs"
    by (rule argmax_in_range)
  with Inr show ?thesis
    by (simp add: species_top1_def breed_top1_def bind_err_def pick_def py_index_def)
qed

text \<open>
  Witness for C3: one label, two probabilities with the maximum at index 1. The species label
  is \<^verbatim>\<open>"unknown"\<close> and the sheep head's label is \<^verbatim>\<open>"sheep_class_1"\<close>.
\<close>

theorem label_alignment_witness:
  "argmax [0.1, 0.9] = Inr 1 \<and> length [''bovine''] \<le> (1::nat) \<and>
   species_top1 [''bovine''] [0.1, 0.9] = Inr (''unknown'', 0.9) \<and>
   breed_top1 Sheep [''bovine''] [0.1, 0.9] = Inr (''sheep_class_1'', 0.9)"
proof -
  have a: "argmax [0.1, 0.9] = Inr 1"
    by (simp add: argmax_def)
  have p: "class_placeholder Sheep 1 = ''sheep_class_1''"
    by code_simp
  show ?thesis
    using a p label_alignment [of "[''bovine'']" "[0.1, 0.9]" Sheep 1 "''x''"]
    by simp
qed

section \<open>Failure inside the guardrail\<close>


section \<open>Quality gate\<close>

text \<open>
  Claim C5, evaluated on an over-exposed image. The mean grey level 229.5 gives the
  brightness 0.9, above the band [0.25, 0.75]: the rule fails, and its score is 1.0, not the
  ratio (1 - 0.9) / 0.25 = 0.4 of the violated upper side. The second argument of
  \<^verbatim>\<open>min\<close> in the source is never the smaller one under \<^verbatim>\<open>brightness < 0.5\<close>
  (\<open>brightness_rule_score\<close>).
\<close>

theorem brightness_overexposed_scores_one:
  "brightness (assess_image_quality
      \<lparr>width = 600, height = 600, laplacian_variance = 130, gray_mean = 229.5, gray_std = 51\<rparr>
      None None) = \<lparr>pass = False, score = 1\<rparr>"
  by (simp add: assess_image_quality_def brightness_rule_def Let_def)

text \<open>
  Claim C6 as stated fails: with a file of 10 bytes against a limit of 5 the report holds a
  failing \<^verbatim>\<open>file_size\<close> rule, and \<^verbatim>\<open>overall_pass\<close> is true all the same.
\<close>

theorem overall_pass_ignores_file_size:
  "overall_pass (assess_image_quality example_stats (Some 10) (Some 5)) \<and>
   \<not> list_all pass (report_rules (assess_image_quality example_stats (Some 10) (Some 5)))"
  by (simp add: assess_image_quality_def report_rules_def resolution_rule_def blur_rule_def
      brightness_rule_def dynamic_range_rule_def file_size_rule_def Let_def example_stats_def)

text \<open>
  Claim C6, amended. For every report of the gate, \<^verbatim>\<open>overall_score\<close> is the mean of the
  scores of the four image rules (resolution, blur, brightness, dynamic range) and
  \<^verbatim>\<open>overall_pass\<close> is the conjunction of their pass flags; the \<^verbatim>\<open>file_size\<close> rule is in the
  report exactly when both sizes are supplied, and enters neither aggregate.
\<close>

theorem overall_of_four_rules:
  "overall_score (assess_image_quality img fsz mx) =
     mean (map score [resolution (assess_image_quality img fsz mx),
                      blur (assess_image_quality img fsz mx),
                      brightness (assess_image_quality img fsz mx),
                      dynamic_range (assess_image_quality img fsz mx)]) \<and>
   overall_pass (assess_image_quality img fsz mx) =
     list_all pass [resolution (assess_image_quality img fsz mx),
                    blur (assess_image_quality img fsz mx),
                    brightness (assess_image_quality img fsz mx),
                    dynamic_range (assess_image_quality img fsz mx)] \<and>
   file_size (assess_image_quality img fsz mx) =
     (case (fsz, mx) of (Some n, Some m) \<Rightarrow> Some (file_size_rule n m) | _ \<Rightarrow> None)"
  by (simp add: assess_image_quality_def Let_def mean_def)


text \<open>
  The scenario of the specification, in a run that completes (offline mode): a dark image
  (mean grey 12.75, brightness 0.05) fails the brightness rule and the report as a whole, and
  the species result is shown and recorded as for the well lit image.
\<close>

lemma dark_image_still_processed:
  "\<not> overall_pass (assess_image_quality (example_stats\<lparr>gray_mean := 12.75\<rparr>)
        (Some 2048) (Some 5242880)) \<and>
   without_quality (process_image offline_settings None
       (uncertain_upload\<lparr>up_stats := example_stats\<lparr>gray_mean := 12.75\<rparr>\<rparr>)) =
     inference offline_settings None uncertain_upload \<and>
   snd (inference offline_settings None uncertain_upload) = Inr None"
proof -
  have i: "inference offline_settings None
       (uncertain_upload\<lparr>up_stats := example_stats\<lparr>gray_mean := 12.75\<rparr>\<rparr>) =
      inference offline_settings None uncertain_upload"
    using inference_ignores_quality_inputs
      [where cfg = offline_settings and e = True and m = 5 and bound = None
         and u = uncertain_upload and st = "example_stats\<lparr>gray_mean := 12.75\<rparr>"
         and sz = "Some 2048"]
    by (simp add: offline_settings_def example_settings_def uncertain_upload_def
        example_upload_def)
  have w: "without_quality (inference offline_settings None uncertain_upload) =
      inference offline_settings None uncertain_upload"
    unfolding offline_inference by (simp add: without_quality_def)
  have p: "\<not> overall_pass (assess_image_quality (example_stats\<lparr>gray_mean := 12.75\<rparr>)
      (Some 2048) (Some 5242880))"
    by (simp add: assess_image_quality_def brightness_rule_def example_stats_def Let_def)
  have r: "snd (inference offline_settings None uncertain_upload) = Inr None"
    unfolding offline_inference by simp
  show ?thesis
  proof (intro conjI)
    show "\<not> overall_pass (assess_image_quality (example_stats\<lparr>gray_mean := 12.75\<rparr>)
        (Some 2048) (Some 5242880))"
      by (rule p)
    show "without_quality (process_image offline_settings None
        (uncertain_upload\<lparr>up_stats := example_stats\<lparr>gray_mean := 12.75\<rparr>\<rparr>)) =
      inference offline_settings None uncertain_upload"
      unfolding without_quality_process_image i by (rule w)
    show "snd (inference offline_settings None uncertain_upload) = Inr None"
      by (rule r)
  qed
qed

section \<open>Correction ledger\<close>

text \<open>
  \<^verbatim>\<open>save_correction\<close> returns \<^verbatim>\<open>True\<close> exactly when the statements inside its \<^verbatim>\<open>try\<close> complete;
  whatever they raise becomes \<^verbatim>\<open>False\<close>. The file is opened for appending: what it held is
  still its beginning after the call, and a call that completes has added the header line
  (when the file did not exist) and the line of its row.
\<close>

lemma save_correction_indication:
  "snd (save_correction lib flt now file hash pred act conf) =
     (snd (save_correction_try lib flt now file hash pred act conf) = Inr ())"
  by (simp add: save_correction_def split: prod.splits sum.splits)

lemma save_correction_appends:
  "save_correction lib flt now file hash pred act conf = (file', ok) \<Longrightarrow>
     take (length (file_text file)) (file_text file') = file_text file \<and>
     (ok \<longrightarrow> file' \<noteq> None \<and>
        file_text file' =
          file_text file @ (if file = None then header_line lib else []) @
          writerow lib [now, hash, pred, act, str_float lib conf])"
  by (auto simp: save_correction_def save_correction_try_def file_text_def header_line_def
      Let_def split: if_splits option.splits fault.splits)

lemma record_correction_step:
  assumes "record_correction lib s r = (ok, s')"
  shows "take (length (file_text (corrections_file s))) (file_text (corrections_file s')) =
       file_text (corrections_file s)"
    and "ok \<Longrightarrow> corrections_file s' \<noteq> None"
    and "ok \<Longrightarrow> file_text (corrections_file s') =
       file_text (corrections_file s) @
       (if corrections_file s = None then header_line lib else []) @ row_line lib r"
    and "active_learning_queue s' =
       active_learning_queue s @ (if ok then [queue_entry r] else [])"
proof -
  obtain file' b where sc: "save_correction lib (req_fault r) (write_time r) (corrections_file s)
             (req_hash r) (req_predicted r) (req_actual r) (req_confidence r) = (file', b)"
    by (cases "save_correction lib (req_fault r) (write_time r) (corrections_file s)
             (req_hash r) (req_predicted r) (req_actual r) (req_confidence r)")
  from assms sc have eq: "ok = b" "corrections_file s' = file'"
    and q: "active_learning_queue s' = active_learning_queue s @ (if b then [queue_entry r] else [])"
    by (auto simp: record_correction_def split: bool.splits)
  note a = save_correction_appends [OF sc]
  show "take (length (file_text (corrections_file s))) (file_text (corrections_file s')) =
       file_text (corrections_file s)"
    using a eq by simp
  show "ok \<Longrightarrow> corrections_file s' \<noteq> None"
    using a eq by simp
  show "ok \<Longrightarrow> file_text (corrections_file s') =
       file_text (corrections_file s) @
       (if corrections_file s = None then header_line lib else []) @ row_line lib r"
    using a eq by (simp add: row_line_def row_fields_def)
  show "active_learning_queue s' =
       active_learning_queue s @ (if ok then [queue_entry r] else [])"
    using q eq by simp
qed

lemma succeeded_Cons:
  "succeeded (r # rs) (ok # oks) = (if ok then [r] else []) @ succeeded rs oks"
  by (simp add: succeeded_def)

lemma begins_with_trans:
  assumes "take (length a) b = a" and "take (length b) c = b"
  shows "take (length a) c = a"
proof -
  have "b = a @ drop (length a) b"
    using assms(1) append_take_drop_id [of "length a" b] by simp
  moreover have "c = b @ drop (length b) c"
    using assms(2) append_take_drop_id [of "length b" c] by simp
  ultimately have "c = a @ (drop (length a) b @ drop (length b) c)"
    by (metis append.assoc)
  then show ?thesis
    by (metis append_eq_conv_conj)
qed

text \<open>
  Claim C8 as stated fails: a call can fail after its text has reached the file. On a fresh
  session, a first request whose \<^verbatim>\<open>with\<close> block raises at the close, when all the 93 bytes of
  the header and the row are in the file, returns \<^verbatim>\<open>False\<close> and leaves the very file a
  successful call leaves: the failed call has added a record. And a first request that
  fails when 10 bytes have reached the file leaves the fragment \<^verbatim>\<open>timestamp,\<close> in a file that
  now exists: the next call succeeds, writes no header and appends its row to the fragment,
  so that the ledger has no header line and the row of the one successful call is
  not a line of its own.
\<close>

theorem failed_call_leaves_its_text:
  "fst (record_correction example_lib fresh_session close_fails_request) = False \<and>
   corrections_file (snd (record_correction example_lib fresh_session close_fails_request)) =
     Some (plain_row header_fields @
           plain_row [''2024-05-01T10:00:01'', ''9f2c'', ''Gir'', ''Sahiwal'', ''0.62'']) \<and>
   corrections_file (snd (record_correction example_lib fresh_session example_request)) =
     Some (plain_row header_fields @
           plain_row [''2024-05-01T10:00:01'', ''9f2c'', ''Gir'', ''Sahiwal'', ''0.62'']) \<and>
   fst (record_all example_lib fresh_session [fragment_request, second_request]) =
     [False, True] \<and>
   corrections_file (snd (record_all example_lib fresh_session [fragment_request, second_request])) =
     Some (''timestamp,'' @
           plain_row [''2024-05-01T10:00:03'', ''9f2c'', ''Gir'', ''Jersey'', ''0.62''])"
  by (simp add: record_correction_def save_correction_def save_correction_try_def
      example_lib_def fresh_session_def close_fails_request_def fragment_request_def
      example_request_def second_request_def header_fields_def plain_row_def Let_def)

text \<open>
  Claim C8, amended. Recording corrections is a total operation: each call returns its
  indication (\<open>oks\<close> has one flag for each request) and nothing escapes. The ledger is only
  appended to: what the file held before the calls is still its beginning after them,
  whether they succeed or fail. The queue of the session grows by one entry for each
  successful call and by none for a failed one, in call order, and each new entry carries
  the image hash, the predicted and the actual label and the confidence of the row its call
  wrote (each of the two takes its own reading of the clock). When all the calls succeed,
  the file holds what it held before, then the header line if the file was absent, then the
  lines of the rows of the calls, in call order, and nothing else.
\<close>

theorem ledger_is_only_appended_to:
  assumes "record_all lib s rs = (oks, s')"
  shows "length oks = length rs \<and>
     take (length (file_text (corrections_file s))) (file_text (corrections_file s')) =
       file_text (corrections_file s) \<and>
     active_learning_queue s' =
       active_learning_queue s @ map queue_entry (succeeded rs oks) \<and>
     map (\<lambda>c. [image_hash c, predicted c, actual c, str_float lib (confidence c)])
         (drop (length (active_learning_queue s)) (active_learning_queue s')) =
       map (\<lambda>r. tl (row_fields lib r)) (succeeded rs oks) \<and>
     (list_all (\<lambda>ok. ok) oks \<longrightarrow>
        file_text (corrections_file s') =
          file_text (corrections_file s) @
          (if corrections_file s = None \<and> rs \<noteq> [] then header_line lib else []) @
          concat (map (row_line lib) rs))"
  using assms
proof (induction rs arbitrary: s oks s')
  case Nil
  then show ?case
    by (simp add: succeeded_def)
next
  case (Cons r rs)
  obtain ok s1 where step: "record_correction lib s r = (ok, s1)"
    by (cases "record_correction lib s r")
  obtain oks1 s2 where rest: "record_all lib s1 rs = (oks1, s2)"
    by (cases "record_all lib s1 rs")
  from Cons.prems step rest have eq: "oks = ok # oks1" "s' = s2"
    by simp_all
  note ih = Cons.IH [OF rest]
  note st = record_correction_step [OF step]
  have len: "length (ok # oks1) = length (r # rs)"
    using ih by simp
  have beg: "take (length (file_text (corrections_file s))) (file_text (corrections_file s2)) =
       file_text (corrections_file s)"
    using begins_with_trans [OF st(1)] ih by blast
  have que: "active_learning_queue s2 =
       active_learning_queue s @ map queue_entry (succeeded (r # rs) (ok # oks1))"
    using ih st(4) by (simp add: succeeded_Cons)
  have mat: "map (\<lambda>c. [image_hash c, predicted c, actual c, str_float lib (confidence c)])
         (drop (length (active_learning_queue s)) (active_learning_queue s2)) =
       map (\<lambda>r. tl (row_fields lib r)) (succeeded (r # rs) (ok # oks1))"
    unfolding que by (simp add: queue_entry_def row_fields_def)
  have all: "file_text (corrections_file s2) =
          file_text (corrections_file s) @
          (if corrections_file s = None \<and> r # rs \<noteq> [] then header_line lib else []) @
          concat (map (row_line lib) (r # rs))"
    if "list_all (\<lambda>ok. ok) (ok # oks1)"
  proof -
    from that have ok: ok and oks1: "list_all (\<lambda>ok. ok) oks1"
      by simp_all
    have "file_text (corrections_file s2) =
        file_text (corrections_file s1) @ concat (map (row_line lib) rs)"
      using ih oks1 st(2) [OF ok] by simp
    then show ?thesis
      using st(3) [OF ok] by simp
  qed
  show ?case
    unfolding eq using len beg que mat all by blast
qed

text \<open>
  Witness for C8: two requests on a fresh session, both successful. The file ends with the
  header line and the two rows, and the queue with the two entries.
\<close>

theorem ledger_is_only_appended_to_witness:
  "fst (record_all example_lib fresh_session [example_request, second_request]) = [True, True] \<and>
   file_text (corrections_file
       (snd (record_all example_lib fresh_session [example_request, second_request]))) =
     header_line example_lib @ row_line example_lib example_request @
     row_line example_lib second_request \<and>
   map actual (active_learning_queue
       (snd (record_all example_lib fresh_session [example_request, second_request]))) =
     [''Sahiwal'', ''Jersey'']"
proof -
  have f: "fst (record_all example_lib fresh_session [example_request, second_request]) =
      [True, True]"
    by (simp add: example_request_def second_request_def fresh_session_def
        record_correction_def save_correction_def save_correction_try_def Let_def
        split: prod.splits)
  then have r: "record_all example_lib fresh_session [example_request, second_request] =
      ([True, True], snd (record_all example_lib fresh_session [example_request, second_request]))"
    by (simp add: prod_eq_iff)
  have q: "map actual (map queue_entry (succeeded [example_request, second_request] [True, True])) =
      [''Sahiwal'', ''Jersey'']"
    by (simp add: succeeded_def example_request_def second_request_def queue_entry_def)
  have e: "corrections_file fresh_session = None" "active_learning_queue fresh_session = []"
    "file_text None = []"
    by (simp_all add: fresh_session_def file_text_def)
  show ?thesis
    using ledger_is_only_appended_to [OF r] f q e by simp
qed

section \<open>Label registry\<close>

lemma infer_labels_listable:
  "(case map_of fs (d @ ''/train'') of Some (File r) \<Rightarrow> False | _ \<Rightarrow> True) \<Longrightarrow>
     infer_labels_from_dir fs d =
       Inr (case spec_directory fs (d @ ''/train'') of Some l \<Rightarrow> l | None \<Rightarrow> [])"
  by (auto simp: infer_labels_from_dir_def spec_directory_def path_exists_def subdirs_def
      bind_err_def Let_def split: option.splits node.splits)

lemma resolve_label_field_chain:
  "resolve_label_field fs val fallback =
     (case spec_explicit_list val of
        Some l \<Rightarrow> l
      | None \<Rightarrow> (case spec_list_file fs val of Some l \<Rightarrow> l | None \<Rightarrow> fallback))"
  by (auto simp: resolve_label_field_def spec_explicit_list_def spec_list_file_def
      path_exists_def read_json_def
      split: json.splits option.splits node.splits sum.splits)

lemma resolve_species_chain:
  "resolve_species fs cfg =
     (case spec_explicit_list (cfg_get cfg ''species_labels'') of
        Some l \<Rightarrow> l
      | None \<Rightarrow>
          (case spec_list_file fs (cfg_get cfg ''species_labels'') of
             Some l \<Rightarrow> l
           | None \<Rightarrow> default_species))"
  by (auto simp: resolve_species_def spec_explicit_list_def spec_list_file_def cfg_get_def
      path_exists_def read_json_def default_species_def Let_def
      split: json.splits option.splits node.splits sum.splits)

lemma sorted_breed_folders: "sort [''Nellore'', ''Deccani''] = [''Deccani'', ''Nellore'']"
  by code_simp

text \<open>
  \<^verbatim>\<open>ensure_labels\<close> of \<^verbatim>\<open>app_comprehensive.py\<close> returns what the file parses to, also when that
  is an empty list: on the example it returns the empty list though the training directory
  holds two breed folders.
\<close>

lemma ensure_labels_takes_empty_file:
  "ensure_labels example_files example_config ''sheep_labels'' None ''sheep_breeds'' =
     Inr (JList [])"
  by (simp add: ensure_labels_def example_files_def example_config_def cfg_get_def
      path_exists_def read_json_def Let_def)

text \<open>
  Claim C9 as stated fails for the species label set: with no configuration entry, no file
  and no directory, \<^verbatim>\<open>resolve_all_labels\<close> gives the species labels bovine and sheep, where
  the order of the claim ends at the empty list.
\<close>

theorem species_resolution_differs:
  "resolve_all_labels [] [] = Inr ([JString ''bovine'', JString ''sheep''], [], []) \<and>
   spec_resolve [] (cfg_get [] ''species_labels'') ''hierarchical_data/species/train'' = []"
  by (simp add: resolve_all_labels_def resolve_species_def infer_labels_from_dir_def
      resolve_label_field_def cfg_get_def path_exists_def bind_err_def default_species_def
      spec_resolve_def spec_explicit_list_def spec_list_file_def spec_directory_def Let_def)

text \<open>
  Claim C9, amended. In \<^verbatim>\<open>app.py\<close>, when neither training path is a plain file (listing one
  would raise), \<^verbatim>\<open>resolve_all_labels\<close> returns: for the sheep and for the bovine label set,
  the result of the first source that succeeds in the order (1) a non-empty list in the
  configuration, (2) the list file the configuration names, if it parses to a non-empty
  list, (3) the sorted names of the subdirectories of the head's training directory,
  (4) the empty list; for the species label set, the result of (1) or (2), and otherwise the
  built-in list bovine, sheep.
\<close>

theorem sheep_bovine_resolution_order:
  assumes "train_dirs_listable fs"
  shows "resolve_all_labels fs cfg =
     Inr (case spec_explicit_list (cfg_get cfg ''species_labels'') of
            Some l \<Rightarrow> l
          | None \<Rightarrow>
              (case spec_list_file fs (cfg_get cfg ''species_labels'') of
                 Some l \<Rightarrow> l
               | None \<Rightarrow> default_species),
          spec_resolve fs (cfg_get cfg ''sheep_labels'') ''hierarchical_data/sheep_breeds/train'',
          spec_resolve fs (cfg_get cfg ''bovine_labels'') ''hierarchical_data/bovine_breeds/train'')"
proof -
  have s: "infer_labels_from_dir fs ''hierarchical_data/sheep_breeds'' =
       Inr (case spec_directory fs ''hierarchical_data/sheep_breeds/train'' of
              Some l \<Rightarrow> l | None \<Rightarrow> [])"
    using assms infer_labels_listable [of fs "''hierarchical_data/sheep_breeds''"]
    by (simp add: train_dirs_listable_def)
  have b: "infer_labels_from_dir fs ''hierarchical_data/bovine_breeds'' =
       Inr (case spec_directory fs ''hierarchical_data/bovine_breeds/train'' of
              Some l \<Rightarrow> l | None \<Rightarrow> [])"
    using assms infer_labels_listable [of fs "''hierarchical_data/bovine_breeds''"]
    by (simp add: train_dirs_listable_def)
  show ?thesis
    by (simp add: resolve_all_labels_def s b bind_err_def resolve_label_field_chain
        resolve_species_chain spec_resolve_def Let_def)
qed

text \<open>
  Witness for C9: the sheep labels name a file that holds an empty list, so the sorted
  folder names of the training directory are taken; the bovine labels are the list of the
  configuration; the species labels are the built-in ones.
\<close>

theorem sheep_bovine_resolution_order_witness:
  "train_dirs_listable example_files \<and>
   resolve_all_labels example_files example_config =
     Inr ([JString ''bovine'', JString ''sheep''],
          [JString ''Deccani'', JString ''Nellore''],
          [JString ''Gir'', JString ''Sahiwal''])"
proof -
  have l: "train_dirs_listable example_files"
    by (simp add: train_dirs_listable_def example_files_def)
  show ?thesis
    using l sheep_bovine_resolution_order [OF l, of example_config] sorted_breed_folders
    by (simp add: example_files_def example_config_def cfg_get_def spec_resolve_def
        spec_explicit_list_def spec_list_file_def spec_directory_def default_species_def)
qed

section \<open>Crop assistant\<close>

lemma shape1_rectangular:
  "rectangular w h a \<Longrightarrow> 0 < h \<Longrightarrow> shape1 a = w"
  by (cases a) (auto simp: rectangular_def shape1_def)

lemma slice2_rows:
  "rectangular w h a \<Longrightarrow> y1 + n \<le> h \<Longrightarrow> x1 + m \<le> w \<Longrightarrow>
     rectangular m n (slice2 a y1 (y1 + n) x1 (x1 + m))"
  by (auto simp: rectangular_def slice2_def list_all_iff dest!: in_set_takeD in_set_dropD)

lemma slice2_nth:
  "rectangular w h a \<Longrightarrow> y1 + n \<le> h \<Longrightarrow> x1 + m \<le> w \<Longrightarrow> i < n \<Longrightarrow> j < m \<Longrightarrow>
     slice2 a y1 (y1 + n) x1 (x1 + m) ! i ! j = a ! (y1 + i) ! (x1 + j)"
  by (simp add: rectangular_def slice2_def list_all_length)

text \<open>
  Claim C10. For every image of positive width \<open>w\<close> and height \<open>h\<close>, the crop assistant in
  its default mode returns a square of side \<open>min w h\<close>: its pixel at row \<open>i\<close> and column \<open>j\<close>
  is the pixel of the input at row \<open>(h - min w h) div 2 + i\<close> and column
  \<open>(w - min w h) div 2 + j\<close>. The square lies inside the input, and on each axis the margin
  after it exceeds the margin before it by at most one pixel: it is centred.
\<close>

theorem center_square_crop_centered:
  assumes "rectangular w h img" and "0 < w" and "0 < h"
  shows "rectangular (min w h) (min w h) (auto_crop_image accepts_empty img False) \<and>
         (\<forall>i<min w h. \<forall>j<min w h.
            auto_crop_image accepts_empty img False ! i ! j =
              img ! ((h - min w h) div 2 + i) ! ((w - min w h) div 2 + j)) \<and>
         (w - min w h) div 2 + min w h \<le> w \<and> (h - min w h) div 2 + min w h \<le> h \<and>
         w - min w h - 2 * ((w - min w h) div 2) \<le> 1 \<and>
         h - min w h - 2 * ((h - min w h) div 2) \<le> 1"
proof -
  let ?m = "min w h"
  let ?sx = "(w - ?m) div 2"
  let ?sy = "(h - ?m) div 2"
  have s0: "shape0 img = h"
    using assms(1) by (simp add: rectangular_def shape0_def)
  have s1: "shape1 img = w"
    using assms(1,3) by (rule shape1_rectangular)
  have crop: "center_square_crop img = slice2 img ?sy (?sy + ?m) ?sx (?sx + ?m)"
    by (simp add: center_square_crop_def s0 s1 Let_def min.commute)
  have fit_y: "?sy + ?m \<le> h" and fit_x: "?sx + ?m \<le> w"
    by auto
  have rect: "rectangular ?m ?m (center_square_crop img)"
    unfolding crop using assms(1) fit_y fit_x by (rule slice2_rows)
  have pos: "0 < ?m"
    using assms(2,3) by simp
  have nonempty: "shape0 (center_square_crop img) \<noteq> 0 \<and> shape1 (center_square_crop img) \<noteq> 0"
    using rect pos shape1_rectangular [OF rect pos] by (simp add: rectangular_def shape0_def)
  have out: "auto_crop_image accepts_empty img False = center_square_crop img"
    using nonempty by (simp add: auto_crop_image_def fromarray_def)
  have px: "\<forall>i<?m. \<forall>j<?m. center_square_crop img ! i ! j = img ! (?sy + i) ! (?sx + j)"
    unfolding crop using slice2_nth [OF assms(1) fit_y fit_x] by blast
  have margin: "n - 2 * (n div 2) \<le> 1" for n :: nat
    by presburger
  show ?thesis
    unfolding out using rect px fit_y fit_x margin [of "w - ?m"] margin [of "h - ?m"]
    by blast
qed

text \<open>
  Witness for C10: an image of two rows and three columns. The crop is the square of side 2
  that starts at column 0 (the spare column is left after it).
\<close>

theorem center_square_crop_centered_witness:
  "rectangular 3 2 [[1, 2, 3], [4, 5, 6::nat]] \<and>
   auto_crop_image False [[1, 2, 3], [4, 5, 6::nat]] False = [[1, 2], [4, 5]] \<and>
   rectangular 2 2 (auto_crop_image False [[1, 2, 3], [4, 5, 6::nat]] False)"
proof -
  have r: "rectangular 3 2 [[1, 2, 3], [4, 5, 6::nat]]"
    by (simp add: rectangular_def)
  have v: "auto_crop_image False [[1, 2, 3], [4, 5, 6::nat]] False = [[1, 2], [4, 5]]"
    by (simp add: auto_crop_image_def fromarray_def center_square_crop_def slice2_def
        shape0_def shape1_def Let_def)
  show ?thesis
    using r v center_square_crop_centered [OF r, of False] by simp
qed

end
